theory Spec2Isabelle
  imports Main "HOL-Library.Sublist" "HOL-Library.Char_ord" "HOL-Library.List_Lexorder"
begin

unbundle bit_operations_syntax

section \<open>JSON values as the server sees them\<close>

text \<open>
  The server of \<^verbatim>\<open>src/ocr.ts\<close> handles values produced by \<^verbatim>\<open>JSON.parse\<close>.
  A JavaScript value is \<open>json option\<close>, with \<open>None\<close> for \<^verbatim>\<open>undefined\<close>.
  An object holds its own properties, one entry per key. Numbers carry an integral
  value: the program only ever tests a number for truthiness or prints it.
  Strings are byte strings (the UTF-8 encoding of the JavaScript string).
\<close>

datatype json =
    JNull
  | JBool bool
  | JNum int
  | JStr string
  | JArr "json list"
  | JObj "(string \<times> json) list"

type_synonym jsval = "json option"

fun truthy :: "jsval \<Rightarrow> bool" where
  "truthy None = False"
| "truthy (Some JNull) = False"
| "truthy (Some (JBool b)) = b"
| "truthy (Some (JNum n)) = (n \<noteq> 0)"
| "truthy (Some (JStr s)) = (s \<noteq> [])"
| "truthy (Some (JArr xs)) = True"
| "truthy (Some (JObj kvs)) = True"

fun is_string :: "jsval \<Rightarrow> bool" where
  "is_string (Some (JStr s)) = True"
| "is_string _ = False"

text \<open>
  Property read \<^verbatim>\<open>v.k\<close> on a value that is neither \<^verbatim>\<open>undefined\<close> nor
  \<^verbatim>\<open>null\<close>, for the keys the program reads (\<^verbatim>\<open>id, method, params, name, arguments,
  image_path, text_file_path, analysis, clientInfo, error, message, choices, content\<close>
  and the index \<^verbatim>\<open>0\<close>): none of them is a built-in property of a string, an array,
  a number or a boolean, except the index.
\<close>

fun js_member :: "json \<Rightarrow> string \<Rightarrow> jsval" where
  "js_member (JObj kvs) k = map_of kvs k"
| "js_member (JArr xs) k = (if k = ''0'' then (case xs of [] \<Rightarrow> None | x # _ \<Rightarrow> Some x) else None)"
| "js_member (JStr s) k = (if k = ''0'' then (case s of [] \<Rightarrow> None | c # _ \<Rightarrow> Some (JStr [c])) else None)"
| "js_member _ k = None"

text \<open>\<^verbatim>\<open>v?.k\<close>, and \<^verbatim>\<open>v.k\<close> where the code has checked \<open>v\<close> to be truthy.\<close>

fun opt_prop :: "jsval \<Rightarrow> string \<Rightarrow> jsval" where
  "opt_prop None k = None"
| "opt_prop (Some JNull) k = None"
| "opt_prop (Some v) k = js_member v k"

text \<open>Unguarded \<^verbatim>\<open>v.k\<close>: a TypeError (\<open>Inl\<close>) on \<^verbatim>\<open>undefined\<close> and \<^verbatim>\<open>null\<close>.\<close>

fun read_prop :: "(string \<Rightarrow> string) \<Rightarrow> jsval \<Rightarrow> string \<Rightarrow> string + jsval" where
  "read_prop te None k = Inl (te k)"
| "read_prop te (Some JNull) k = Inl (te k)"
| "read_prop te (Some v) k = Inr (js_member v k)"

section \<open>The runtime: Node library functions and the operating system\<close>

text \<open>
  Functions of the Node runtime that the program calls and that are not code of the
  repository are parameters of the model, collected in one record. The model is
  proved correct for every runtime; the instance \<open>demo_rt\<close> below serves the examples.
\<close>

datatype node = File string bool bool | Dir

type_synonym files = "string \<rightharpoonup> node"

record OpenAIRequest =
  model :: string
  prompt_text :: string
  image_url :: string
  image_detail :: string
  max_tokens :: nat

record curl_result =
  exit_code :: "int option"
  responseData :: string
  errorOutput :: string

record runtime =
  path_resolve :: "string \<Rightarrow> string"
  path_dirname :: "string \<Rightarrow> string"
  path_basename :: "string \<Rightarrow> string \<Rightarrow> string"
  path_extname :: "string \<Rightarrow> string"
  path_join :: "string \<Rightarrow> string \<Rightarrow> string"
  JSON_parse :: "string \<Rightarrow> string + json"
  JSON_stringify :: "jsval \<Rightarrow> string"
  JSON_stringify2 :: "jsval \<Rightarrow> string"
  String :: "jsval \<Rightarrow> string"
  str_trim :: "string \<Rightarrow> string"
  toFixed2_MB :: "nat \<Rightarrow> string"
  base64 :: "string \<Rightarrow> string"
  toISOString :: "nat \<Rightarrow> string"
  TypeError_message :: "string \<Rightarrow> string"
  sys_error :: "string \<Rightarrow> string \<Rightarrow> string"
  process_env :: "string \<Rightarrow> string option"
  readdirSync :: "files \<Rightarrow> string \<Rightarrow> string + string list"
  may_create :: "string \<Rightarrow> bool"
  curl :: "string \<Rightarrow> OpenAIRequest \<Rightarrow> curl_result"

text \<open>
  \<^item> \<open>path_*\<close>: Node's \<^verbatim>\<open>path\<close> module; \<open>path_resolve\<close> includes the working directory.
  \<^item> \<open>JSON_parse\<close> returns the SyntaxError message on the left; \<open>JSON_stringify\<close> is
    \<^verbatim>\<open>JSON.stringify(v)\<close>, \<open>JSON_stringify2\<close> is \<^verbatim>\<open>JSON.stringify(v, null, 2)\<close>,
    \<open>String\<close> the conversion of a template literal.
  \<^item> \<open>toFixed2_MB n\<close> is \<^verbatim>\<open>(n / (1024 * 1024)).toFixed(2)\<close>, a floating-point rendering.
  \<^item> \<open>toISOString t\<close> is \<^verbatim>\<open>new Date().toISOString()\<close> at the \<open>t\<close>-th reading of the clock.
  \<^item> \<open>TypeError_message\<close> and \<open>sys_error\<close> give the message texts of the runtime's own errors.
  \<^item> \<open>readdirSync\<close> is the directory listing in the order the system returns it.
  \<^item> \<open>may_create p\<close>: the system lets a new file be created at \<open>p\<close>.
  \<^item> \<open>curl key request\<close>: what the spawned \<^verbatim>\<open>curl\<close> process returns: exit code
    (\<open>None\<close> when a signal ended it), standard output, standard error.
\<close>

subsection \<open>The file system\<close>

text \<open>
  A node is a directory or a regular file with its content, whether it can be read and
  whether it can be written.
\<close>

definition existsSync :: "files \<Rightarrow> string \<Rightarrow> bool" where
  "existsSync fs p = (fs p \<noteq> None)"

definition readFileSync :: "runtime \<Rightarrow> files \<Rightarrow> string \<Rightarrow> string + string" where
  "readFileSync rt fs p =
     (case fs p of
        None \<Rightarrow> Inl (sys_error rt ''ENOENT'' p)
      | Some Dir \<Rightarrow> Inl (sys_error rt ''EISDIR'' p)
      | Some (File c r w) \<Rightarrow> if r then Inr c else Inl (sys_error rt ''EACCES'' p))"

definition writeFileSync :: "runtime \<Rightarrow> files \<Rightarrow> string \<Rightarrow> string \<Rightarrow> string + files" where
  "writeFileSync rt fs p d =
     (case fs p of
        None \<Rightarrow> if may_create rt p then Inr (fs(p \<mapsto> File d True True))
                else Inl (sys_error rt ''ENOENT'' p)
      | Some Dir \<Rightarrow> Inl (sys_error rt ''EISDIR'' p)
      | Some (File c r w) \<Rightarrow> if w then Inr (fs(p \<mapsto> File d r w))
                             else Inl (sys_error rt ''EACCES'' p))"

definition appendFileSync :: "runtime \<Rightarrow> files \<Rightarrow> string \<Rightarrow> string \<Rightarrow> string + files" where
  "appendFileSync rt fs p d =
     (case fs p of
        None \<Rightarrow> if may_create rt p then Inr (fs(p \<mapsto> File d True True))
                else Inl (sys_error rt ''ENOENT'' p)
      | Some Dir \<Rightarrow> Inl (sys_error rt ''EISDIR'' p)
      | Some (File c r w) \<Rightarrow> if w then Inr (fs(p \<mapsto> File (c @ d) r w))
                             else Inl (sys_error rt ''EACCES'' p))"

section \<open>Server state\<close>

text \<open>
  The module-level variables \<^verbatim>\<open>OPENAI_API_KEY\<close>, \<^verbatim>\<open>conversationState\<close> and
  \<^verbatim>\<open>clientInfo\<close>, the file system, the number of clock readings so far, and the
  requests handed to \<^verbatim>\<open>curl\<close> so far (a trace, for statements about remote calls).
  Diagnostics written by \<^verbatim>\<open>log\<close> to standard error are not modelled.
\<close>

record state =
  OPENAI_API_KEY :: "string option"
  lastOcrResult :: "string option"
  lastImagePath :: jsval
  llmResponses :: "(string \<times> string) list"
  clientInfo :: jsval
  fs :: files
  clock :: nat
  curl_calls :: "OpenAIRequest list"

definition now :: "runtime \<Rightarrow> state \<Rightarrow> string \<times> state" where
  "now rt st = (toISOString rt (clock st), st\<lparr>clock := Suc (clock st)\<rparr>)"

section \<open>Constants and protocol types\<close>

definition MAX_FILE_SIZE :: nat where
  "MAX_FILE_SIZE = 5 * 1024 * 1024"

definition ALLOWED_EXTENSIONS :: "string list" where
  "ALLOWED_EXTENSIONS = [''.jpg'', ''.jpeg'', ''.png'', ''.gif'', ''.webp'']"

definition OCR_TOOL_name :: string where
  "OCR_TOOL_name = ''extract_text_from_image''"

definition APPEND_ANALYSIS_TOOL_name :: string where
  "APPEND_ANALYSIS_TOOL_name = ''append_analysis''"

text \<open>
  \<^verbatim>\<open>McpToolResult\<close>: every content item of the program has type \<^verbatim>\<open>"text"\<close>, so the
  content is the list of the texts; \<open>isError = False\<close> stands for an absent field.
\<close>

record McpToolResult =
  content :: "string list"
  isError :: bool

text \<open>
  Results written by \<^verbatim>\<open>sendResponse\<close>. The tool descriptors are constants of the
  program; their payloads are kept as constructors, with the echoed client info.
\<close>

datatype payload =
    InitializeResponse jsval
  | ListOfferingsResponse jsval
  | ToolsListResponse
  | ToolResult McpToolResult

datatype reply =
    Success jsval payload
  | Failure json int string

definition sendResponse :: "jsval \<Rightarrow> payload \<Rightarrow> reply" where
  "sendResponse i r = Success i r"

definition sendError :: "jsval \<Rightarrow> int \<Rightarrow> string \<Rightarrow> reply" where
  "sendError i code message =
     Failure (if truthy i then the i else JStr ''error'') code message"

datatype 'a promise = Resolved 'a | Rejected string


section \<open>Strings\<close>

text \<open>
  \<^verbatim>\<open>toLowerCase\<close> and the \<^verbatim>\<open>/i\<close> flag of a regular expression, on the letters A to Z.
  Every other byte is left as it is: no character outside ASCII lowers to, or matches
  case-insensitively, one of the ASCII letters that the program compares with.
\<close>

definition lower_char :: "char \<Rightarrow> char" where
  "lower_char c =
     (case map_of (zip ''ABCDEFGHIJKLMNOPQRSTUVWXYZ'' ''abcdefghijklmnopqrstuvwxyz'') c of
        Some d \<Rightarrow> d
      | None \<Rightarrow> c)"

definition toLowerCase :: "string \<Rightarrow> string" where
  "toLowerCase s = map lower_char s"

text \<open>\<^verbatim>\<open>xs.join(sep)\<close>\<close>

fun join_with :: "string \<Rightarrow> string list \<Rightarrow> string" where
  "join_with sep [] = []"
| "join_with sep [x] = x"
| "join_with sep (x # y # ys) = x @ sep @ join_with sep (y # ys)"

text \<open>The text a template literal inserts for a value: a string as it is.\<close>

definition template :: "runtime \<Rightarrow> jsval \<Rightarrow> string" where
  "template rt v = (case v of Some (JStr s) \<Rightarrow> s | _ \<Rightarrow> String rt v)"

section \<open>SHA-256\<close>

text \<open>
  \<^verbatim>\<open>createHash('sha256').update(text).digest('hex')\<close> of Node's \<^verbatim>\<open>crypto\<close> module is the
  SHA-256 function of FIPS 180-4 on the UTF-8 bytes of the text, printed as 64
  lower-case hexadecimal digits. Words are 32-bit values held in \<open>nat\<close>, with the
  wrap-around written out.
\<close>

definition add32 :: "nat \<Rightarrow> nat \<Rightarrow> nat" where
  "add32 a b = (a + b) mod 4294967296"

definition rotr :: "nat \<Rightarrow> nat \<Rightarrow> nat" where
  "rotr n x = (x div 2 ^ n) OR ((x * 2 ^ (32 - n)) mod 4294967296)"

definition Ch :: "nat \<Rightarrow> nat \<Rightarrow> nat \<Rightarrow> nat" where
  "Ch x y z = (x AND y) XOR ((4294967295 - x) AND z)"

definition Maj :: "nat \<Rightarrow> nat \<Rightarrow> nat \<Rightarrow> nat" where
  "Maj x y z = (x AND y) XOR (x AND z) XOR (y AND z)"

definition Sigma0 :: "nat \<Rightarrow> nat" where
  "Sigma0 x = rotr 2 x XOR rotr 13 x XOR rotr 22 x"

definition Sigma1 :: "nat \<Rightarrow> nat" where
  "Sigma1 x = rotr 6 x XOR rotr 11 x XOR rotr 25 x"

definition sigma0 :: "nat \<Rightarrow> nat" where
  "sigma0 x = rotr 7 x XOR rotr 18 x XOR (x div 2 ^ 3)"

definition sigma1 :: "nat \<Rightarrow> nat" where
  "sigma1 x = rotr 17 x XOR rotr 19 x XOR (x div 2 ^ 10)"

definition K256 :: "nat list" where
  "K256 = [
  0x428A2F98, 0x71374491, 0xB5C0FBCF, 0xE9B5DBA5, 0x3956C25B, 0x59F111F1, 0x923F82A4, 0xAB1C5ED5,
  0xD807AA98, 0x12835B01, 0x243185BE, 0x550C7DC3, 0x72BE5D74, 0x80DEB1FE, 0x9BDC06A7, 0xC19BF174,
  0xE49B69C1, 0xEFBE4786, 0x0FC19DC6, 0x240CA1CC, 0x2DE92C6F, 0x4A7484AA, 0x5CB0A9DC, 0x76F988DA,
  0x983E5152, 0xA831C66D, 0xB00327C8, 0xBF597FC7, 0xC6E00BF3, 0xD5A79147, 0x06CA6351, 0x14292967,
  0x27B70A85, 0x2E1B2138, 0x4D2C6DFC, 0x53380D13, 0x650A7354, 0x766A0ABB, 0x81C2C92E, 0x92722C85,
  0xA2BFE8A1, 0xA81A664B, 0xC24B8B70, 0xC76C51A3, 0xD192E819, 0xD6990624, 0xF40E3585, 0x106AA070,
  0x19A4C116, 0x1E376C08, 0x2748774C, 0x34B0BCB5, 0x391C0CB3, 0x4ED8AA4A, 0x5B9CCA4F, 0x682E6FF3,
  0x748F82EE, 0x78A5636F, 0x84C87814, 0x8CC70208, 0x90BEFFFA, 0xA4506CEB, 0xBEF9A3F7, 0xC67178F2]"

definition H0 :: "nat list" where
  "H0 = [0x6A09E667, 0xBB67AE85, 0x3C6EF372, 0xA54FF53A,
         0x510E527F, 0x9B05688C, 0x1F83D9AB, 0x5BE0CD19]"

text \<open>
  The message schedule as a sliding window of sixteen words: the head is the word of
  the current round, and each round appends the word sixteen rounds ahead.
\<close>

fun next_w :: "nat list \<Rightarrow> nat" where
  "next_w (w0 # w1 # w2 # w3 # w4 # w5 # w6 # w7 # w8 # w9 # w10 # w11 # w12 # w13 # w14 # ws) =
     add32 (add32 (add32 (sigma1 w14) w9) (sigma0 w1)) w0"
| "next_w _ = 0"

definition T1 :: "nat \<Rightarrow> nat \<Rightarrow> nat \<Rightarrow> nat \<Rightarrow> nat \<Rightarrow> nat \<Rightarrow> nat" where
  "T1 e f g h k w = add32 (add32 (add32 (add32 h (Sigma1 e)) (Ch e f g)) k) w"

definition T2 :: "nat \<Rightarrow> nat \<Rightarrow> nat \<Rightarrow> nat" where
  "T2 a b c = add32 (Sigma0 a) (Maj a b c)"

definition round_out :: "nat \<Rightarrow> nat \<Rightarrow> nat list \<Rightarrow> nat list" where
  "round_out t1 t2 hs =
     (case hs of
        [a, b, c, d, e, f, g, h] \<Rightarrow> [add32 t1 t2, a, b, c, add32 d t1, e, f, g]
      | _ \<Rightarrow> hs)"

fun step256 :: "nat list \<times> nat list \<Rightarrow> nat \<Rightarrow> nat list \<times> nat list" where
  "step256 ([a, b, c, d, e, f, g, h], w # ws) k =
     (round_out (T1 e f g h k w) (T2 a b c) [a, b, c, d, e, f, g, h],
      ws @ [next_w (w # ws)])"
| "step256 s _ = s"

definition compress :: "nat list \<Rightarrow> nat list \<Rightarrow> nat list" where
  "compress hs block = map2 add32 hs (fst (foldl step256 (hs, block) K256))"

definition be32 :: "nat list \<Rightarrow> nat" where
  "be32 bs = foldl (\<lambda>acc b. acc * 256 + b) 0 bs"

fun chunks :: "nat \<Rightarrow> 'a list \<Rightarrow> 'a list list" where
  "chunks n [] = []"
| "chunks n (x # xs) =
     (if n = 0 then [x # xs] else take n (x # xs) # chunks n (drop (n - 1) xs))"

definition be64_bytes :: "nat \<Rightarrow> nat list" where
  "be64_bytes n = map (\<lambda>k. (n div 256 ^ k) mod 256) [7, 6, 5, 4, 3, 2, 1, 0]"

definition pad :: "nat list \<Rightarrow> nat list" where
  "pad m = m @ [128] @ replicate ((119 - length m mod 64) mod 64) 0 @ be64_bytes (8 * length m)"

definition hex_digit :: "nat \<Rightarrow> char" where
  "hex_digit n = ''0123456789abcdef'' ! (n mod 16)"

definition hex32 :: "nat \<Rightarrow> string" where
  "hex32 w = map (\<lambda>k. hex_digit (w div 16 ^ k)) [7, 6, 5, 4, 3, 2, 1, 0]"

definition sha256_words :: "string \<Rightarrow> nat list" where
  "sha256_words text =
     foldl compress H0 (map (map be32 \<circ> chunks 4) (chunks 64 (pad (map of_char text))))"

definition sha256_hex :: "string \<Rightarrow> string" where
  "sha256_hex text = concat (map hex32 (sha256_words text))"

section \<open>Utility functions\<close>

record key_validation =
  isValid :: bool
  issue :: "string option"

definition validateApiKey :: "runtime \<Rightarrow> string \<Rightarrow> key_validation" where
  \<open>validateApiKey rt key =
     (if key = [] then \<lparr>isValid = False, issue = Some ''API key is empty''\<rparr>
      else let cleanKey = str_trim rt key in
        if cleanKey = ''sk-proj-'' \<or> prefix ''sk-proj-*'' cleanKey
        then \<lparr>isValid = False, issue = Some ''API key appears to be truncated''\<rparr>
        else let isStandardKey = (prefix ''sk-'' cleanKey \<and> length cleanKey > 20);
                 isProjectKey = (prefix ''sk-proj-'' cleanKey \<and> length cleanKey > 30)
          in if \<not> isStandardKey \<and> \<not> isProjectKey
             then \<lparr>isValid = False,
                   issue = Some (''Invalid key format. Key must start with "sk-" or "sk-proj-" and be of sufficient length. Got: ''
                                 @ take 8 cleanKey @ ''...'')\<rparr>
             else \<lparr>isValid = True, issue = None\<rparr>)\<close>

fun find_key :: "runtime \<Rightarrow> string list \<Rightarrow> string option" where
  "find_key rt [] = None"
| "find_key rt (envVar # rest) =
     (case process_env rt envVar of
        None \<Rightarrow> find_key rt rest
      | Some key \<Rightarrow>
          if key \<noteq> [] \<and> key \<noteq> ''your-api-key-here''
             \<and> isValid (validateApiKey rt (str_trim rt key))
          then Some (str_trim rt key)
          else find_key rt rest)"

definition getOpenAIApiKey :: "runtime \<Rightarrow> string option" where
  "getOpenAIApiKey rt = find_key rt [''OPENAI_API_KEY'', ''openai_api_key'', ''OpenAI_API_Key'']"

definition getMimeType :: "runtime \<Rightarrow> string \<Rightarrow> string" where
  "getMimeType rt filePath =
     (let ext = toLowerCase (path_extname rt filePath) in
      if ext = ''.jpg'' \<or> ext = ''.jpeg'' then ''image/jpeg''
      else if ext = ''.png'' then ''image/png''
      else if ext = ''.gif'' then ''image/gif''
      else if ext = ''.webp'' then ''image/webp''
      else ''image/jpeg'')"

definition generateShortHash :: "string \<Rightarrow> string" where
  "generateShortHash text = take 8 (sha256_hex text)"

text \<open>The local \<^verbatim>\<open>txtPath\<close> of \<^verbatim>\<open>saveExtractedText\<close>.\<close>

definition txtPath_of :: "runtime \<Rightarrow> string \<Rightarrow> string \<Rightarrow> string" where
  "txtPath_of rt imagePath text =
     (let dir = path_dirname rt imagePath;
          baseNameWithoutExt = path_basename rt imagePath (path_extname rt imagePath);
          hash = generateShortHash text
      in path_join rt dir (baseNameWithoutExt @ ''-'' @ hash @ ''.txt''))"

definition ocr_section :: "string \<Rightarrow> string" where
  "ocr_section text = ''OCR EXTRACTED TEXT:'' @ [CHR 10] @ ''=================='' @ [CHR 10]
                       @ text @ [CHR 10]"

text \<open>\<open>Inl\<close> is the message of the Error that \<^verbatim>\<open>saveExtractedText\<close> throws.\<close>

definition saveExtractedText :: "runtime \<Rightarrow> state \<Rightarrow> string \<Rightarrow> string \<Rightarrow> (string + string) \<times> state" where
  "saveExtractedText rt st imagePath text =
     (let txtPath = txtPath_of rt imagePath text in
      case writeFileSync rt (fs st) txtPath (ocr_section text) of
        Inr fs' \<Rightarrow> (Inr txtPath, st\<lparr>fs := fs'\<rparr>)
      | Inl m \<Rightarrow> (Inl (''Failed to save text file: '' @ m), st))"

definition analysis_section :: "string \<Rightarrow> string \<Rightarrow> string" where
  "analysis_section timestamp body =
     [CHR 10, CHR 10] @ ''LLM ANALYSIS:'' @ [CHR 10] @ ''============='' @ [CHR 10]
     @ ''['' @ timestamp @ '']'' @ [CHR 10] @ body @ [CHR 10]"

definition appendLlmResponseToFile :: "runtime \<Rightarrow> state \<Rightarrow> string \<Rightarrow> jsval \<Rightarrow> state" where
  "appendLlmResponseToFile rt st txtPath response =
     (let (timestamp, st1) = now rt st;
          formattedResponse = (case response of Some (JStr s) \<Rightarrow> s
                               | _ \<Rightarrow> JSON_stringify2 rt response)
      in case appendFileSync rt (fs st1) txtPath (analysis_section timestamp formattedResponse) of
           Inr fs' \<Rightarrow> st1\<lparr>fs := fs'\<rparr>
         | Inl m \<Rightarrow> st1)"

definition matchingFiles :: "string \<Rightarrow> string list \<Rightarrow> string list" where
  "matchingFiles baseNameWithoutExt files =
     filter (\<lambda>file. prefix (baseNameWithoutExt @ ''-'') file \<and> suffix ''.txt'' file) files"

definition logLlmResponse :: "runtime \<Rightarrow> state \<Rightarrow> jsval \<Rightarrow> state" where
  "logLlmResponse rt st response =
     (let (timestamp, st1) = now rt st;
          st2 = st1\<lparr>llmResponses := llmResponses st1 @ [(timestamp, JSON_stringify rt response)]\<rparr>
      in if truthy (lastImagePath st2) then
           (case lastImagePath st2 of
              Some (JStr lip) \<Rightarrow>
                (let dir = path_dirname rt lip;
                     baseNameWithoutExt = path_basename rt lip (path_extname rt lip)
                 in case readdirSync rt (fs st2) dir of
                      Inl m \<Rightarrow> st2
                    | Inr files \<Rightarrow>
                        (let matching = matchingFiles baseNameWithoutExt files in
                         if matching \<noteq> [] then
                           (let txtPath = path_join rt dir (last matching) in
                            case readFileSync rt (fs st2) txtPath of
                              Inl m \<Rightarrow> st2
                            | Inr currentContent \<Rightarrow> appendLlmResponseToFile rt st2 txtPath response)
                         else st2))
            | _ \<Rightarrow> st2)
         else st2)"


section \<open>The append\_analysis tool\<close>

definition soft_error :: "string \<Rightarrow> McpToolResult" where
  "soft_error message = \<lparr>content = [''Error: '' @ message], isError = True\<rparr>"

text \<open>
  \<^verbatim>\<open>handleAppendAnalysis\<close>. The argument is the value the caller passes, an object with
  \<^verbatim>\<open>text_file_path\<close> and \<^verbatim>\<open>analysis\<close> when the caller respects the declared type.
  \<^verbatim>\<open>fs.existsSync\<close> answers false for a path that is not a string.
\<close>

definition handleAppendAnalysis :: "runtime \<Rightarrow> state \<Rightarrow> jsval \<Rightarrow> McpToolResult \<times> state" where
  "handleAppendAnalysis rt st args =
     (case read_prop (TypeError_message rt) args ''text_file_path'' of
        Inl m \<Rightarrow> (soft_error m, st)
      | Inr text_file_path \<Rightarrow>
          (let analysis = opt_prop args ''analysis'' in
           case text_file_path of
             Some (JStr p) \<Rightarrow>
               if \<not> existsSync (fs st) p then (soft_error (''Text file not found: '' @ p), st)
               else if \<not> suffix ''.txt'' p then (soft_error ''File must be a .txt file'', st)
               else
                 (let (timestamp, st1) = now rt st;
                      appendText = analysis_section timestamp (template rt analysis)
                  in case appendFileSync rt (fs st1) p appendText of
                       Inr fs' \<Rightarrow>
                         (\<lparr>content = [''Analysis has been appended to: '' @ p], isError = False\<rparr>,
                          st1\<lparr>fs := fs'\<rparr>)
                     | Inl m \<Rightarrow> (soft_error m, st1))
           | _ \<Rightarrow> (soft_error (''Text file not found: '' @ template rt text_file_path), st)))"

definition append_args :: "string \<Rightarrow> string \<Rightarrow> jsval" where
  "append_args text_file_path analysis =
     Some (JObj [(''text_file_path'', JStr text_file_path), (''analysis'', JStr analysis)])"

section \<open>The extraction tool\<close>

subsection \<open>Splitting the completion\<close>

text \<open>
  \<^verbatim>\<open>fullResponse.split(/\n\n(?=Analysis:|Interpretation:|Summary:|Understanding:)/i)\<close>:
  the separator is two line feeds that one of the headings follows, in any case; the
  split scans from the left, cuts at every separator and drops it.
\<close>

definition heading_ahead :: "string \<Rightarrow> bool" where
  "heading_ahead s =
     list_ex (\<lambda>h. prefix h (toLowerCase s))
       [''analysis:'', ''interpretation:'', ''summary:'', ''understanding:'']"

definition separator_at :: "string \<Rightarrow> bool" where
  "separator_at s = (prefix [CHR 10, CHR 10] s \<and> heading_ahead (drop 2 s))"

fun split_headings :: "string \<Rightarrow> string \<Rightarrow> string list" where
  "split_headings cur [] = [cur]"
| "split_headings cur (c # cs) =
     (if separator_at (c # cs) then cur # split_headings [] (tl cs)
      else split_headings (cur @ [c]) cs)"

definition split_response :: "string \<Rightarrow> string \<times> string" where
  "split_response fullResponse =
     (let parts = split_headings [] fullResponse;
          extractedText = hd parts;
          analysis = (if length parts > 1 then join_with [CHR 10, CHR 10] (tl parts) else [])
      in (extractedText, analysis))"

subsection \<open>Validation of the image\<close>

text \<open>
  The synchronous part of \<^verbatim>\<open>extractTextFromImage\<close> after the key checks: \<open>Inl\<close> is the
  message of the Error thrown (and caught by the function's own \<^verbatim>\<open>catch\<close>), \<open>Inr\<close> the
  resolved path and the bytes read. The inner \<^verbatim>\<open>try\<close> blocks rethrow with a prefix.
\<close>

definition validate_image :: "runtime \<Rightarrow> files \<Rightarrow> jsval \<Rightarrow> string + string \<times> string" where
  "validate_image rt files args =
     (if \<not> truthy args then Inl ''Arguments are required but were undefined''
      else let image_path = opt_prop args ''image_path'' in
        if \<not> truthy image_path then Inl ''image_path is required but was missing''
        else case image_path of
          Some (JStr ip) \<Rightarrow>
            (let imagePath = path_resolve rt ip in
             if \<not> existsSync files imagePath
             then Inl (''File access error: '' @ ''File not found at path: '' @ imagePath)
             else case files imagePath of
                 None \<Rightarrow> Inl (''File stats error: '' @ sys_error rt ''ENOENT'' imagePath)
               | Some Dir \<Rightarrow> Inl (''File stats error: '' @ ''Not a file: '' @ imagePath)
               | Some (File bytes r w) \<Rightarrow>
                   if length bytes > MAX_FILE_SIZE
                   then Inl (''File stats error: '' @ ''File too large: ''
                             @ toFixed2_MB rt (length bytes) @ ''MB (max: 5MB)'')
                   else let ext = toLowerCase (path_extname rt imagePath) in
                     if ext \<notin> set ALLOWED_EXTENSIONS
                     then Inl (''Invalid file type: '' @ ext @ ''. Allowed types: ''
                               @ join_with '', '' ALLOWED_EXTENSIONS)
                     else (case readFileSync rt files imagePath of
                         Inl m \<Rightarrow> Inl (''File read error: '' @ m)
                       | Inr probe \<Rightarrow>
                           (case readFileSync rt files imagePath of
                              Inl m \<Rightarrow> Inl (''Failed to read image file: '' @ m)
                            | Inr imageBuffer \<Rightarrow> Inr (imagePath, imageBuffer))))
        | _ \<Rightarrow> Inl (TypeError_message rt ''path.resolve''))"

definition requestBody :: "runtime \<Rightarrow> string \<Rightarrow> string \<Rightarrow> OpenAIRequest" where
  "requestBody rt imagePath imageBuffer =
     \<lparr>model = ''gpt-4.1-mini'',
      prompt_text = ''Extract all text from this image and provide a detailed analysis of its contents. Include both the raw text and your analysis.'',
      image_url = ''data:'' @ getMimeType rt imagePath @ '';base64,'' @ base64 rt imageBuffer,
      image_detail = ''high'',
      max_tokens = 4096\<rparr>"

subsection \<open>Reading the completion\<close>

text \<open>
  The \<^verbatim>\<open>try\<close> block of the \<^verbatim>\<open>close\<close> handler up to \<^verbatim>\<open>fullResponse\<close>: \<open>Inl\<close> is the
  message the promise is rejected with. A TypeError inside the block (a property read
  on \<^verbatim>\<open>undefined\<close> or \<^verbatim>\<open>null\<close>, \<^verbatim>\<open>split\<close> on a value that is not a string) is
  caught by the block's \<^verbatim>\<open>catch\<close>, which rejects with a prefixed message.
\<close>

definition parse_failed :: "string \<Rightarrow> string" where
  "parse_failed m = ''Failed to parse OpenAI response: '' @ m"

definition read_completion :: "runtime \<Rightarrow> string \<Rightarrow> string + string" where
  "read_completion rt data =
     (case JSON_parse rt data of
        Inl m \<Rightarrow> Inl (parse_failed m)
      | Inr response \<Rightarrow>
         (case read_prop (TypeError_message rt) (Some response) ''error'' of
            Inl m \<Rightarrow> Inl (parse_failed m)
          | Inr err \<Rightarrow>
             if truthy err then Inl (''OpenAI API error: '' @ template rt (opt_prop err ''message''))
             else
              (case read_prop (TypeError_message rt) (opt_prop (Some response) ''choices'') ''0'' of
                 Inl m \<Rightarrow> Inl (parse_failed m)
               | Inr choice \<Rightarrow>
                  (case read_prop (TypeError_message rt) choice ''message'' of
                     Inl m \<Rightarrow> Inl (parse_failed m)
                   | Inr message \<Rightarrow>
                      (case read_prop (TypeError_message rt) message ''content'' of
                         Inl m \<Rightarrow> Inl (parse_failed m)
                       | Inr msg_content \<Rightarrow>
                          if truthy msg_content then
                            (case msg_content of
                               Some (JStr s) \<Rightarrow> Inr s
                             | _ \<Rightarrow> Inl (parse_failed (TypeError_message rt ''split'')))
                          else Inr ''No text extracted'')))))"

subsection \<open>The close handler of the curl process\<close>

definition exit_code_value :: "int option \<Rightarrow> jsval" where
  "exit_code_value code = (case code of None \<Rightarrow> Some JNull | Some n \<Rightarrow> Some (JNum n))"

definition on_close :: "runtime \<Rightarrow> state \<Rightarrow> string \<Rightarrow> curl_result \<Rightarrow> McpToolResult promise \<times> state" where
  "on_close rt st imagePath res =
     (if exit_code res \<noteq> Some 0
      then (Rejected (''curl process exited with code '' @ String rt (exit_code_value (exit_code res))
                      @ '': '' @ errorOutput res), st)
      else case read_completion rt (responseData res) of
          Inl m \<Rightarrow> (Rejected m, st)
        | Inr fullResponse \<Rightarrow>
           (let (extractedText, analysis) = split_response fullResponse;
                st1 = st\<lparr>lastOcrResult := Some extractedText,
                         lastImagePath := Some (JStr imagePath)\<rparr>
            in case saveExtractedText rt st1 imagePath extractedText of
                 (Inr txtPath, st2) \<Rightarrow>
                   (let st3 = (if analysis \<noteq> []
                               then snd (handleAppendAnalysis rt st2 (append_args txtPath analysis))
                               else st2)
                    in (Resolved \<lparr>content = [extractedText,
                                              [CHR 10, CHR 10] @ ''Text has been saved to: '' @ txtPath],
                                   isError = False\<rparr>, st3))
               | (Inl m, st2) \<Rightarrow>
                   (Resolved \<lparr>content = [extractedText,
                                          [CHR 10, CHR 10] @ ''Warning: Failed to save text file: '' @ m],
                               isError = False\<rparr>, st2)))"

subsection \<open>extractTextFromImage\<close>

text \<open>
  The promise the function returns is resolved by its own \<^verbatim>\<open>catch\<close> for everything thrown
  before the curl process is spawned. The promise of the curl call is returned from
  inside the \<^verbatim>\<open>try\<close> without \<^verbatim>\<open>await\<close>, so a rejection of it is the rejection of the
  function's promise.
\<close>

definition key_missing :: "string option \<Rightarrow> bool" where
  "key_missing k = (k = None \<or> k = Some [])"

definition extractTextFromImage :: "runtime \<Rightarrow> state \<Rightarrow> jsval \<Rightarrow> McpToolResult promise \<times> state" where
  "extractTextFromImage rt st args =
     (let st1 = (if key_missing (OPENAI_API_KEY st)
                 then st\<lparr>OPENAI_API_KEY := getOpenAIApiKey rt\<rparr> else st)
      in if key_missing (OPENAI_API_KEY st1)
         then (Resolved (soft_error ''OpenAI API key is not available. Please set the environment variable.''), st1)
         else let key = the (OPENAI_API_KEY st1); validation = validateApiKey rt key in
           if \<not> isValid validation
           then (Resolved (soft_error (''Invalid API key: '' @ template rt (map_option JStr (issue validation)))), st1)
           else case validate_image rt (fs st1) args of
               Inl m \<Rightarrow> (Resolved (soft_error m), st1)
             | Inr (imagePath, imageBuffer) \<Rightarrow>
                 (let request = requestBody rt imagePath imageBuffer;
                      st2 = st1\<lparr>curl_calls := curl_calls st1 @ [request]\<rparr>
                  in on_close rt st2 imagePath (curl rt key request)))"

section \<open>Method handlers\<close>

definition echo_clientInfo :: "state \<Rightarrow> jsval" where
  "echo_clientInfo st = (if truthy (clientInfo st) then clientInfo st else None)"

definition handleInitialize :: "state \<Rightarrow> jsval \<Rightarrow> jsval \<Rightarrow> reply list \<times> state" where
  "handleInitialize st i params =
     (let st1 = (if truthy params \<and> truthy (opt_prop params ''clientInfo'')
                 then st\<lparr>clientInfo := opt_prop params ''clientInfo''\<rparr> else st)
      in ([sendResponse i (InitializeResponse (echo_clientInfo st1))], st1))"

definition handleListOfferings :: "state \<Rightarrow> jsval \<Rightarrow> reply list \<times> state" where
  "handleListOfferings st i = ([sendResponse i (ListOfferingsResponse (echo_clientInfo st))], st)"

definition handleToolsList :: "state \<Rightarrow> jsval \<Rightarrow> reply list \<times> state" where
  "handleToolsList st i = ([sendResponse i ToolsListResponse], st)"

text \<open>The \<^verbatim>\<open>try\<close>/\<^verbatim>\<open>catch\<close> around \<^verbatim>\<open>await extractTextFromImage(...)\<close> in both call handlers.\<close>

definition run_extract :: "runtime \<Rightarrow> state \<Rightarrow> jsval \<Rightarrow> jsval \<Rightarrow> reply list \<times> state" where
  "run_extract rt st i args =
     (case extractTextFromImage rt st args of
        (Resolved result, st') \<Rightarrow> ([sendResponse i (ToolResult result)], st')
      | (Rejected m, st') \<Rightarrow> ([sendError i (- 32000) (''Error executing tool: '' @ m)], st'))"

definition handleCallTool :: "runtime \<Rightarrow> state \<Rightarrow> jsval \<Rightarrow> jsval \<Rightarrow> reply list \<times> state" where
  "handleCallTool rt st i params =
     (if \<not> truthy params then ([sendError i (- 32602) ''Invalid params''], st)
      else let name = opt_prop params ''name''; args = opt_prop params ''arguments'' in
        if name = Some (JStr OCR_TOOL_name) then run_extract rt st i args
        else if name = Some (JStr APPEND_ANALYSIS_TOOL_name) then
          (case handleAppendAnalysis rt st args of
             (result, st') \<Rightarrow> ([sendResponse i (ToolResult result)], st'))
        else ([sendError i (- 32601) (''Tool not found: '' @ template rt name)], st))"

text \<open>
  The shape rules of \<^verbatim>\<open>handleToolsCall\<close>, for \<^verbatim>\<open>params\<close> that is truthy: the values of
  the locals \<^verbatim>\<open>toolName\<close> and \<^verbatim>\<open>imagePath\<close> after the \<^verbatim>\<open>if\<close> chain.
\<close>

definition resolve_tool_call :: "jsval \<Rightarrow> jsval \<times> jsval" where
  "resolve_tool_call params =
     (if is_string params then (Some (JStr OCR_TOOL_name), params)
      else if truthy (opt_prop params ''name'') \<and> is_string (opt_prop params ''params'')
        then (opt_prop params ''name'', opt_prop params ''params'')
      else if truthy (opt_prop params ''name'') \<and> truthy (opt_prop params ''params'')
              \<and> truthy (opt_prop (opt_prop params ''params'') ''image_path'')
        then (opt_prop params ''name'', opt_prop (opt_prop params ''params'') ''image_path'')
      else if truthy (opt_prop params ''image_path'')
        then (Some (JStr OCR_TOOL_name), opt_prop params ''image_path'')
      else if truthy (opt_prop params ''name'') \<and> truthy (opt_prop params ''arguments'')
        then (opt_prop params ''name'',
              if is_string (opt_prop params ''arguments'') then opt_prop params ''arguments''
              else if truthy (opt_prop (opt_prop params ''arguments'') ''image_path'')
                then opt_prop (opt_prop params ''arguments'') ''image_path''
              else None)
      else (None, None))"

definition handleToolsCall :: "runtime \<Rightarrow> state \<Rightarrow> jsval \<Rightarrow> jsval \<Rightarrow> reply list \<times> state" where
  "handleToolsCall rt st i params =
     (if \<not> truthy params then ([sendError i (- 32602) ''Invalid params: params is undefined''], st)
      else let (toolName, imagePath) = resolve_tool_call params in
        if \<not> truthy toolName
        then ([sendError i (- 32602)
                (''Invalid params: tool name could not be determined from params: ''
                 @ JSON_stringify rt params)], st)
        else if \<not> truthy imagePath
        then ([sendError i (- 32602)
                ''Invalid params: Please provide a path to a local image file as a simple string parameter''], st)
        else if toolName = Some (JStr OCR_TOOL_name)
        then run_extract rt st i (Some (JObj [(''image_path'', the imagePath)]))
        else ([sendError i (- 32601) (''Tool not found: '' @ template rt toolName)], st))"

section \<open>The line handler of main\<close>

text \<open>
  One line of standard input. \<^verbatim>\<open>handleNotification\<close> only writes diagnostics for the
  methods \<^verbatim>\<open>main\<close> passes to it (\<^verbatim>\<open>main\<close> handles \<^verbatim>\<open>notifications/llm_response\<close>
  itself and returns). Everything thrown inside the handler's \<^verbatim>\<open>try\<close> is answered by
  \<^verbatim>\<open>sendError(null, -32700, ...)\<close>: a SyntaxError of \<^verbatim>\<open>JSON.parse\<close>, the TypeError of
  destructuring \<^verbatim>\<open>null\<close>, and the TypeError of \<^verbatim>\<open>method.startsWith\<close> on a method that
  is not a string.
\<close>

definition internal_error :: "string \<Rightarrow> reply" where
  "internal_error m = sendError (Some JNull) (- 32700) (''Parse error or internal error: '' @ m)"

definition on_line :: "runtime \<Rightarrow> state \<Rightarrow> string \<Rightarrow> reply list \<times> state" where
  "on_line rt st line =
     (case JSON_parse rt line of
        Inl m \<Rightarrow> ([internal_error m], st)
      | Inr request \<Rightarrow>
         (if request = JNull then ([internal_error (TypeError_message rt ''request'')], st)
          else let i = js_member request ''id'';
                   method = js_member request ''method'';
                   params = js_member request ''params''
           in case method of
             Some (JStr m) \<Rightarrow>
               if prefix ''notifications/'' m then
                 (if m = ''notifications/llm_response'' then ([], logLlmResponse rt st params)
                  else ([], st))
               else if m = ''initialize'' then handleInitialize st i params
               else if m = ''ListOfferings'' then handleListOfferings st i
               else if m = ''callTool'' then
                 (let image_path = opt_prop (opt_prop params ''arguments'') ''image_path'';
                      st1 = (if truthy image_path then st\<lparr>lastImagePath := image_path\<rparr> else st)
                  in handleCallTool rt st1 i params)
               else if m = ''tools/list'' then handleToolsList st i
               else if m = ''tools/call'' then
                 (let image_path = opt_prop params ''image_path'';
                      st1 = (if truthy image_path then st\<lparr>lastImagePath := image_path\<rparr> else st)
                  in handleToolsCall rt st1 i params)
               else ([sendError i (- 32601) (''Method not supported: '' @ m)], st)
           | _ \<Rightarrow> ([internal_error (TypeError_message rt ''method.startsWith'')], st)))"

text \<open>
  The server on a sequence of lines, each handled to its end before the next one is
  read. (The real handlers overlap while a curl process runs; no statement below
  depends on an interleaving.) End of input does not end the process.
\<close>

fun main :: "runtime \<Rightarrow> state \<Rightarrow> string list \<Rightarrow> reply list \<times> state" where
  "main rt st [] = ([], st)"
| "main rt st (line # lines) =
     (case on_line rt st line of
        (out, st1) \<Rightarrow> (case main rt st1 lines of (outs, st2) \<Rightarrow> (out @ outs, st2)))"

section \<open>Observations on replies\<close>

fun reply_id :: "reply \<Rightarrow> jsval" where
  "reply_id (Success i r) = i"
| "reply_id (Failure i code message) = Some i"

fun reply_code :: "reply \<Rightarrow> int option" where
  "reply_code (Success i r) = None"
| "reply_code (Failure i code message) = Some code"

fun reply_isError :: "reply \<Rightarrow> bool option" where
  "reply_isError (Success i (ToolResult r)) = Some (isError r)"
| "reply_isError _ = None"

section \<open>A runtime and a state for the examples\<close>

text \<open>
  The path functions of the example runtime agree with Node's POSIX \<^verbatim>\<open>path\<close> module
  on the absolute, normalised paths that the examples use. Its parser knows the
  lines of the examples.
\<close>

definition demo_basename :: "string \<Rightarrow> string" where
  "demo_basename p = rev (takeWhile (\<lambda>c. c \<noteq> CHR ''/'') (rev p))"

definition demo_runtime_dirname :: "string \<Rightarrow> string" where
  "demo_runtime_dirname p =
     (if CHR ''/'' \<notin> set p then ''.''
      else let d = rev (tl (dropWhile (\<lambda>c. c \<noteq> CHR ''/'') (rev p))) in
        if d = [] then ''/'' else d)"

definition demo_runtime_extname :: "string \<Rightarrow> string" where
  "demo_runtime_extname p =
     (let b = demo_basename p; e = rev (takeWhile (\<lambda>c. c \<noteq> CHR ''.'') (rev b)) in
      if CHR ''.'' \<notin> set b \<or> Suc (length e) = length b then [] else CHR ''.'' # e)"

definition demo_runtime_basename :: "string \<Rightarrow> string \<Rightarrow> string" where
  "demo_runtime_basename p ext =
     (let b = demo_basename p in
      if ext \<noteq> [] \<and> ext \<noteq> b \<and> suffix ext b then take (length b - length ext) b else b)"

definition demo_runtime_join :: "string \<Rightarrow> string \<Rightarrow> string" where
  "demo_runtime_join d f = (if d = ''/'' then d @ f else d @ ''/'' @ f)"

definition completion_of :: "json \<Rightarrow> json" where
  "completion_of c = JObj [(''choices'', JArr [JObj [(''message'', JObj [(''content'', c)])]])]"

definition call_line :: string where
  \<open>call_line = ''{"jsonrpc":"2.0","id":7,"method":"callTool","params":{"name":"extract_text_from_image","arguments":{"image_path":"/img/missing.png"}}}''\<close>

definition call_request :: json where
  "call_request =
     JObj [(''jsonrpc'', JStr ''2.0''), (''id'', JNum 7), (''method'', JStr ''callTool''),
           (''params'', JObj [(''name'', JStr ''extract_text_from_image''),
                             (''arguments'', JObj [(''image_path'', JStr ''/img/missing.png'')])])]"

definition page_line :: string where
  \<open>page_line = ''{"choices":[{"message":{"content":"Page 11882"}}]}''\<close>

definition summary_line :: string where
  \<open>summary_line = ''{"choices":[{"message":{"content":"Hi''
       @ [CHR 0x5C, CHR ''n'', CHR 0x5C, CHR ''n''] @ ''Summary: ok"}}]}''\<close>

definition empty_line :: string where
  \<open>empty_line = ''{"choices":[{"message":{"content":""}}]}''\<close>

definition payload_line :: string where
  \<open>payload_line = ''{"error":{"message":"Incorrect API key provided"}}''\<close>

definition tools_line :: string where
  \<open>tools_line = ''{"jsonrpc":"2.0","id":8,"method":"tools/call","params":{"image_path":"/img/missing.png"}}''\<close>

definition tools_request :: json where
  "tools_request =
     JObj [(''jsonrpc'', JStr ''2.0''), (''id'', JNum 8), (''method'', JStr ''tools/call''),
           (''params'', JObj [(''image_path'', JStr ''/img/missing.png'')])]"

definition llm_line :: string where
  \<open>llm_line = ''{"jsonrpc":"2.0","method":"notifications/llm_response","params":"note"}''\<close>

definition llm_request :: json where
  "llm_request =
     JObj [(''jsonrpc'', JStr ''2.0''), (''method'', JStr ''notifications/llm_response''),
           (''params'', JStr ''note'')]"

definition demo_lines :: "(string \<times> json) list" where
  "demo_lines =
     [(call_line, call_request),
      (tools_line, tools_request),
      (llm_line, llm_request),
      (page_line, completion_of (JStr ''Page 11882'')),
      (summary_line, completion_of (JStr (''Hi'' @ [CHR 10, CHR 10] @ ''Summary: ok''))),
      (empty_line, completion_of (JStr [])),
      (payload_line, JObj [(''error'', JObj [(''message'', JStr ''Incorrect API key provided'')])])]"

definition demo_key :: string where
  "demo_key = ''sk-0123456789abcdefghijklmnop''"

definition curl_ok :: "string \<Rightarrow> curl_result" where
  "curl_ok out = \<lparr>exit_code = Some 0, responseData = out, errorOutput = []\<rparr>"

definition demo_rt :: runtime where
  "demo_rt =
     \<lparr>path_resolve = (\<lambda>p. p),
      path_dirname = demo_runtime_dirname,
      path_basename = demo_runtime_basename,
      path_extname = demo_runtime_extname,
      path_join = demo_runtime_join,
      JSON_parse = (\<lambda>s. case map_of demo_lines s of Some j \<Rightarrow> Inr j
                         | None \<Rightarrow> Inl ''Unexpected token''),
      JSON_stringify = (\<lambda>v. ''{}''),
      JSON_stringify2 = (\<lambda>v. ''{}''),
      String = (\<lambda>v. case v of Some (JNum n) \<Rightarrow> (if n = 7 then ''7'' else ''0'') | _ \<Rightarrow> ''undefined''),
      str_trim = (\<lambda>s. s),
      toFixed2_MB = (\<lambda>n. ''5.00''),
      base64 = (\<lambda>b. ''YWJj''),
      toISOString = (\<lambda>t. if t = 0 then ''2025-01-01T00:00:00.000Z'' else ''2025-01-01T00:00:01.000Z''),
      TypeError_message = (\<lambda>k. ''TypeError''),
      sys_error = (\<lambda>code p. code),
      process_env = (\<lambda>v. if v = ''OPENAI_API_KEY'' then Some demo_key else None),
      readdirSync = (\<lambda>files d. if d = ''/img'' then Inr [''scan.jpg'', ''scan-b.txt'', ''scan-a.txt'']
                               else Inl ''ENOENT''),
      may_create = (\<lambda>p. True),
      curl = (\<lambda>key request. curl_ok page_line)\<rparr>"

text \<open>Variants: the curl process fails, the service reports an error, the completion is
  empty, the completion has an analysis, no file can be created, the listing is sorted.\<close>

definition demo_rt_exit7 :: runtime where
  "demo_rt_exit7 =
     demo_rt\<lparr>curl := (\<lambda>key request.
        \<lparr>exit_code = Some 7, responseData = [], errorOutput = ''Failed to connect''\<rparr>)\<rparr>"

definition demo_rt_payload :: runtime where
  "demo_rt_payload = demo_rt\<lparr>curl := (\<lambda>key request. curl_ok payload_line)\<rparr>"

definition demo_rt_empty :: runtime where
  "demo_rt_empty = demo_rt\<lparr>curl := (\<lambda>key request. curl_ok empty_line)\<rparr>"

definition demo_rt_summary :: runtime where
  "demo_rt_summary = demo_rt\<lparr>curl := (\<lambda>key request. curl_ok summary_line)\<rparr>"

definition demo_rt_readonly :: runtime where
  "demo_rt_readonly = demo_rt\<lparr>may_create := (\<lambda>p. False)\<rparr>"

definition demo_rt_sorted :: runtime where
  "demo_rt_sorted =
     demo_rt\<lparr>readdirSync := (\<lambda>files d. if d = ''/img''
                                        then Inr [''scan-a.txt'', ''scan-b.txt'', ''scan.jpg'']
                                        else Inl ''ENOENT'')\<rparr>"

definition demo_fs :: files where
  "demo_fs =
     [''/img'' \<mapsto> Dir,
      ''/img/page.png'' \<mapsto> File ''abc'' True True,
      ''/img/notes.doc'' \<mapsto> File ''abc'' True True,
      ''/img/locked.png'' \<mapsto> File ''abc'' False True,
      ''/img/big.png'' \<mapsto> File (replicate 5242881 (CHR ''a'')) True True,
      ''/img/scan.jpg'' \<mapsto> File ''abc'' True True,
      ''/img/scan-a.txt'' \<mapsto> File ''A'' True True,
      ''/img/scan-b.txt'' \<mapsto> File ''B'' True True]"

definition demo_st :: state where
  "demo_st =
     \<lparr>OPENAI_API_KEY = Some demo_key, lastOcrResult = None, lastImagePath = None,
      llmResponses = [], clientInfo = Some JNull, fs = demo_fs, clock = 0, curl_calls = []\<rparr>"

definition image_args :: "string \<Rightarrow> jsval" where
  "image_args p = Some (JObj [(''image_path'', JStr p)])"

definition page_call :: jsval where
  "page_call = Some (JObj [(''name'', JStr ''extract_text_from_image''),
                           (''arguments'', JObj [(''image_path'', JStr ''/img/page.png'')])])"

section \<open>The dispatcher: lines that fail to parse\<close>

lemma main_append:
  "main rt st (xs @ ys) =
     (fst (main rt st xs) @ fst (main rt (snd (main rt st xs)) ys),
      snd (main rt (snd (main rt st xs)) ys))"
  by (induction xs arbitrary: st) (auto split: prod.splits)

lemma on_line_parse_failure:
  "JSON_parse rt line = Inl m \<Longrightarrow>
     on_line rt st line =
       ([Failure (JStr ''error'') (- 32700) (''Parse error or internal error: '' @ m)], st)"
  by (simp add: on_line_def internal_error_def sendError_def)

lemma demo_parse_bad: "JSON_parse demo_rt ''{bad'' = Inl ''Unexpected token''"
  by (simp add: demo_rt_def demo_lines_def call_line_def tools_line_def llm_line_def page_line_def summary_line_def empty_line_def payload_line_def)

text \<open>
  Claim C4, as the code has it. A line that \<^verbatim>\<open>JSON.parse\<close> rejects (empty or not) gets
  exactly one reply, an error with code -32700, and the state is untouched; the lines
  before and after it are handled as if it had not been there, so reading goes on.
  The id of the reply is the string \<^verbatim>\<open>"error"\<close>: \<^verbatim>\<open>sendError\<close> replaces a falsy id,
  and so the \<^verbatim>\<open>null\<close> it is called with, by \<^verbatim>\<open>id || 'error'\<close>.
\<close>

theorem C4_parse_error_reply:
  "JSON_parse rt line = Inl m \<Longrightarrow>
     on_line rt st line =
       ([Failure (JStr ''error'') (- 32700) (''Parse error or internal error: '' @ m)], st)
     \<and> main rt st (before @ line # rest) =
         (fst (main rt st before)
            @ [Failure (JStr ''error'') (- 32700) (''Parse error or internal error: '' @ m)]
            @ fst (main rt (snd (main rt st before)) rest),
          snd (main rt (snd (main rt st before)) rest))"
  by (simp add: main_append on_line_parse_failure split: prod.splits)

theorem C4_parse_error_reply_witness:
  "JSON_parse demo_rt ''{bad'' = Inl ''Unexpected token''
   \<and> on_line demo_rt demo_st ''{bad'' =
       ([Failure (JStr ''error'') (- 32700) ''Parse error or internal error: Unexpected token''],
        demo_st)
   \<and> fst (main demo_rt demo_st ([] @ ''{bad'' # [''{bad''])) =
       [Failure (JStr ''error'') (- 32700) ''Parse error or internal error: Unexpected token'',
        Failure (JStr ''error'') (- 32700) ''Parse error or internal error: Unexpected token'']"
  using C4_parse_error_reply [OF demo_parse_bad, of demo_st "[]" "[''{bad'']"] demo_parse_bad
  by (simp add: on_line_parse_failure)

text \<open>
  Claim C4 as stated fails: the reply to the unparsable line \<^verbatim>\<open>{bad\<close> does not carry
  the id \<^verbatim>\<open>null\<close>.
\<close>

theorem C4_null_id_counterexample:
  "map reply_id (fst (on_line demo_rt demo_st ''{bad'')) \<noteq> [Some JNull]
   \<and> map reply_id (fst (on_line demo_rt demo_st ''{bad'')) = [Some (JStr ''error'')]
   \<and> map reply_code (fst (on_line demo_rt demo_st ''{bad'')) = [Some (- 32700)]"
  by (simp add: on_line_parse_failure [OF demo_parse_bad])

section \<open>The shape rules of tools/call\<close>

lemma resolve_tool_call_string:
  "resolve_tool_call (Some (JStr s)) = (Some (JStr OCR_TOOL_name), Some (JStr s))"
  by (simp add: resolve_tool_call_def)

lemma tools_call_bare_string:
  "handleToolsCall rt st i (Some (JStr ''photo.jpg'')) = run_extract rt st i (image_args ''photo.jpg'')"
  by (simp add: handleToolsCall_def resolve_tool_call_def image_args_def OCR_TOOL_name_def)

lemma tools_call_unrecognized:
  "handleToolsCall rt st i (Some (JObj [(''foo'', JNum 1)])) =
     ([sendError i (- 32602)
         (''Invalid params: tool name could not be determined from params: ''
          @ JSON_stringify rt (Some (JObj [(''foo'', JNum 1)])))], st)"
  by (simp add: handleToolsCall_def resolve_tool_call_def)

text \<open>
  The sibling handler \<^verbatim>\<open>handleCallTool\<close> (method \<^verbatim>\<open>callTool\<close>) passes the same
  parameters on to \<^verbatim>\<open>handleAppendAnalysis\<close>.
\<close>

lemma callTool_append_analysis:
  "handleCallTool rt st i
     (Some (JObj [(''name'', JStr ''append_analysis''),
                  (''arguments'', JObj [(''text_file_path'', JStr ''x.txt''),
                                       (''analysis'', JStr ''note'')])]))
   = (case handleAppendAnalysis rt st (append_args ''x.txt'' ''note'') of
        (result, st') \<Rightarrow> ([sendResponse i (ToolResult result)], st'))"
  by (simp add: handleCallTool_def append_args_def OCR_TOOL_name_def APPEND_ANALYSIS_TOOL_name_def)

text \<open>
  Claim C2 on the code. The rules are an \<^verbatim>\<open>if\<close>/\<^verbatim>\<open>else if\<close> chain, so the first match
  wins. The bare string resolves to the extraction tool with that \<^verbatim>\<open>image_path\<close>, and
  \<^verbatim>\<open>{foo: 1}\<close> is answered with code -32602. The third input of the claim,
  \<^verbatim>\<open>{name: "append_analysis", arguments: {text_file_path: "x.txt", analysis: "note"}}\<close>,
  matches rule 5 with no \<^verbatim>\<open>image_path\<close> in the arguments: the tool name resolves, the
  arguments are dropped, and the request is answered with code -32602 instead of
  reaching the tool.
\<close>

theorem C2_tools_call_shapes:
  "resolve_tool_call (Some (JStr ''photo.jpg'')) = (Some (JStr ''extract_text_from_image''), Some (JStr ''photo.jpg''))
   \<and> handleToolsCall rt st i (Some (JStr ''photo.jpg''))
       = run_extract rt st i (Some (JObj [(''image_path'', JStr ''photo.jpg'')]))
   \<and> handleToolsCall rt st i (Some (JObj [(''foo'', JNum 1)]))
       = ([sendError i (- 32602)
            (''Invalid params: tool name could not be determined from params: ''
             @ JSON_stringify rt (Some (JObj [(''foo'', JNum 1)])))], st)
   \<and> resolve_tool_call (Some (JObj [(''name'', JStr ''append_analysis''),
                            (''arguments'', JObj [(''text_file_path'', JStr ''x.txt''),
                                                 (''analysis'', JStr ''note'')])]))
       = (Some (JStr ''append_analysis''), None)
   \<and> handleToolsCall rt st i
         (Some (JObj [(''name'', JStr ''append_analysis''),
                      (''arguments'', JObj [(''text_file_path'', JStr ''x.txt''),
                                           (''analysis'', JStr ''note'')])]))
       = ([sendError i (- 32602)
            ''Invalid params: Please provide a path to a local image file as a simple string parameter''],
          st)"
  by (simp add: handleToolsCall_def resolve_tool_call_def OCR_TOOL_name_def)

section \<open>The append\_analysis tool: what it changes\<close>




lemma append_ok:
  "fs st p = Some (File c r True) \<Longrightarrow> suffix ''.txt'' p \<Longrightarrow>
   handleAppendAnalysis rt st (append_args p a) =
     (\<lparr>content = [''Analysis has been appended to: '' @ p], isError = False\<rparr>,
      st\<lparr>clock := Suc (clock st),
         fs := (fs st)(p \<mapsto> File (c @ analysis_section (toISOString rt (clock st)) a) r True)\<rparr>)"
  by (simp add: handleAppendAnalysis_def append_args_def existsSync_def now_def
        appendFileSync_def template_def)










section \<open>Splitting the completion text\<close>

lemma split_headings_nonempty: "split_headings cur s \<noteq> []"
  by (induction cur s rule: split_headings.induct) auto

lemma separator_at_Cons:
  "separator_at (c # cs) \<Longrightarrow> c # cs = [CHR 10, CHR 10] @ tl cs"
  by (auto simp: separator_at_def prefix_def)

lemma join_split: "join_with [CHR 10, CHR 10] (split_headings cur s) = cur @ s"
proof (induction cur s rule: split_headings.induct)
  case (1 cur)
  then show ?case by simp
next
  case (2 cur c cs)
  show ?case
  proof (cases "separator_at (c # cs)")
    case True
    obtain y ys where ys: "split_headings [] (tl cs) = y # ys"
      using split_headings_nonempty by (cases "split_headings [] (tl cs)") auto
    have "join_with [CHR 10, CHR 10] (y # ys) = tl cs"
      using 2(1) [OF True] ys by simp
    then show ?thesis
      using True ys separator_at_Cons [OF True] by simp
  next
    case False
    then show ?thesis using 2(2) by simp
  qed
qed

lemma split_no_separator:
  "(\<forall>i. \<not> separator_at (drop i s)) \<Longrightarrow> split_headings cur s = [cur @ s]"
proof (induction s arbitrary: cur)
  case Nil
  then show ?case by simp
next
  case (Cons c cs)
  have 0: "\<not> separator_at (c # cs)" using Cons.prems [rule_format, of 0] by simp
  have "\<forall>i. \<not> separator_at (drop i cs)"
  proof
    fix i show "\<not> separator_at (drop i cs)" using Cons.prems [rule_format, of "Suc i"] by simp
  qed
  then show ?case using Cons.IH 0 by simp
qed

lemma split_first_separator:
  "separator_at (drop i s) \<Longrightarrow> (\<forall>j<i. \<not> separator_at (drop j s)) \<Longrightarrow>
   split_headings cur s = (cur @ take i s) # split_headings [] (drop (i + 2) s)"
proof (induction i arbitrary: cur s)
  case 0
  then obtain c cs where s: "s = c # cs"
    by (cases s) (auto simp: separator_at_def)
  with 0 have "separator_at (c # cs)" by simp
  then show ?case using s by (simp add: drop_Suc)
next
  case (Suc i)
  then obtain c cs where s: "s = c # cs"
    by (cases s) (auto simp: separator_at_def)
  have 0: "\<not> separator_at (c # cs)" using Suc.prems(2) [rule_format, of 0] s by simp
  have sep: "separator_at (drop i cs)" using Suc.prems(1) s by simp
  have "\<forall>j<i. \<not> separator_at (drop j cs)"
  proof (intro allI impI)
    fix j assume "j < i"
    then show "\<not> separator_at (drop j cs)" using Suc.prems(2) [rule_format, of "Suc j"] s by simp
  qed
  from Suc.IH [OF sep this] show ?case using 0 s by simp
qed

lemma split_response_none:
  "(\<forall>i. \<not> separator_at (drop i s)) \<Longrightarrow> split_response s = (s, [])"
  by (simp add: split_response_def split_no_separator)

lemma split_response_first:
  assumes "separator_at (drop i s)" "\<forall>j<i. \<not> separator_at (drop j s)"
  shows "split_response s = (take i s, drop (i + 2) s)"
proof -
  have "split_headings [] s = take i s # split_headings [] (drop (i + 2) s)"
    using split_first_separator [OF assms, of "[]"] by simp
  moreover have "join_with [CHR 10, CHR 10] (split_headings [] (drop (i + 2) s)) = drop (i + 2) s"
    using join_split [of "[]"] by simp
  ultimately show ?thesis
    using split_headings_nonempty [of "[]" "drop (i + 2) s"]
    by (simp add: split_response_def Let_def)
qed

lemma separator_at_iff:
  "separator_at t \<longleftrightarrow>
     (\<exists>u v. t = [CHR 10, CHR 10] @ u @ v
        \<and> toLowerCase u \<in> {''analysis:'', ''interpretation:'', ''summary:'', ''understanding:''})"
proof
  assume "separator_at t"
  then obtain h where h: "h \<in> {''analysis:'', ''interpretation:'', ''summary:'', ''understanding:''}"
      "prefix h (toLowerCase (drop 2 t))" and p: "prefix [CHR 10, CHR 10] t"
    by (auto simp: separator_at_def heading_ahead_def)
  from h(2) obtain z where z: "toLowerCase (drop 2 t) = h @ z" by (auto simp: prefix_def)
  have "toLowerCase (take (length h) (drop 2 t)) = h"
    using z by (metis append_eq_conv_conj take_map toLowerCase_def)
  moreover have "t = [CHR 10, CHR 10] @ take (length h) (drop 2 t) @ drop (length h) (drop 2 t)"
    using p by (auto simp: prefix_def)
  ultimately show "\<exists>u v. t = [CHR 10, CHR 10] @ u @ v
        \<and> toLowerCase u \<in> {''analysis:'', ''interpretation:'', ''summary:'', ''understanding:''}"
    using h(1) by metis
next
  assume "\<exists>u v. t = [CHR 10, CHR 10] @ u @ v
        \<and> toLowerCase u \<in> {''analysis:'', ''interpretation:'', ''summary:'', ''understanding:''}"
  then show "separator_at t"
    by (auto simp: separator_at_def heading_ahead_def toLowerCase_def)
qed

section \<open>The extraction pipeline, step by step\<close>

lemma opt_prop_image_path_obj:
  "opt_prop args ''image_path'' = Some v \<Longrightarrow> \<exists>kvs. args = Some (JObj kvs)"
  by (cases "(args, ''image_path'')" rule: opt_prop.cases) (auto split: if_splits)

lemma opt_prop_truthy: "opt_prop args ''image_path'' = Some v \<Longrightarrow> truthy args"
  by (auto dest: opt_prop_image_path_obj)

lemma append_keeps:
  "lastOcrResult (snd (handleAppendAnalysis rt st args)) = lastOcrResult st"
  "lastImagePath (snd (handleAppendAnalysis rt st args)) = lastImagePath st"
  "curl_calls (snd (handleAppendAnalysis rt st args)) = curl_calls st"
  by (auto simp: handleAppendAnalysis_def now_def
           split: sum.splits option.splits json.splits if_splits prod.splits)

lemma save_keeps:
  "lastOcrResult (snd (saveExtractedText rt st p t)) = lastOcrResult st"
  "lastImagePath (snd (saveExtractedText rt st p t)) = lastImagePath st"
  "curl_calls (snd (saveExtractedText rt st p t)) = curl_calls st"
  by (auto simp: saveExtractedText_def Let_def split: sum.splits)

lemma save_failure:
  "writeFileSync rt (fs st) (txtPath_of rt p t) (ocr_section t) = Inl e \<Longrightarrow>
   saveExtractedText rt st p t = (Inl (''Failed to save text file: '' @ e), st)"
  by (simp add: saveExtractedText_def)

lemma save_success:
  "writeFileSync rt (fs st) (txtPath_of rt p t) (ocr_section t) = Inr fs' \<Longrightarrow>
   saveExtractedText rt st p t = (Inr (txtPath_of rt p t), st\<lparr>fs := fs'\<rparr>)"
  by (simp add: saveExtractedText_def)

lemma on_close_exit:
  "exit_code res \<noteq> Some 0 \<Longrightarrow>
   on_close rt st p res =
     (Rejected (''curl process exited with code '' @ String rt (exit_code_value (exit_code res))
                @ '': '' @ errorOutput res), st)"
  by (simp add: on_close_def)

lemma on_close_unreadable:
  "exit_code res = Some 0 \<Longrightarrow> read_completion rt (responseData res) = Inl m \<Longrightarrow>
   on_close rt st p res = (Rejected m, st)"
  by (simp add: on_close_def)

lemma on_close_save_failed:
  "exit_code res = Some 0 \<Longrightarrow> read_completion rt (responseData res) = Inr full \<Longrightarrow>
   writeFileSync rt (fs st) (txtPath_of rt p (fst (split_response full)))
      (ocr_section (fst (split_response full))) = Inl e \<Longrightarrow>
   on_close rt st p res =
     (Resolved \<lparr>content = [fst (split_response full),
                             [CHR 10, CHR 10] @ ''Warning: Failed to save text file: ''
                             @ ''Failed to save text file: '' @ e],
                 isError = False\<rparr>,
      st\<lparr>lastOcrResult := Some (fst (split_response full)), lastImagePath := Some (JStr p)\<rparr>)"
  by (cases "split_response full") (simp add: on_close_def saveExtractedText_def)

lemma on_close_saved:
  "exit_code res = Some 0 \<Longrightarrow> read_completion rt (responseData res) = Inr full \<Longrightarrow>
   writeFileSync rt (fs st) (txtPath_of rt p (fst (split_response full)))
      (ocr_section (fst (split_response full))) = Inr fs' \<Longrightarrow>
   on_close rt st p res =
     (Resolved \<lparr>content = [fst (split_response full),
                             [CHR 10, CHR 10] @ ''Text has been saved to: ''
                             @ txtPath_of rt p (fst (split_response full))],
                 isError = False\<rparr>,
      (let st2 = st\<lparr>lastOcrResult := Some (fst (split_response full)),
                     lastImagePath := Some (JStr p), fs := fs'\<rparr>
       in if snd (split_response full) \<noteq> []
          then snd (handleAppendAnalysis rt st2
                      (append_args (txtPath_of rt p (fst (split_response full)))
                                   (snd (split_response full))))
          else st2))"
  by (cases "split_response full") (simp add: on_close_def saveExtractedText_def Let_def)

lemma on_close_cases:
  "(\<exists>m. on_close rt st p res = (Rejected m, st))
   \<or> (\<exists>t second st'. on_close rt st p res = (Resolved \<lparr>content = [t, second], isError = False\<rparr>, st')
        \<and> lastOcrResult st' = Some t \<and> lastImagePath st' = Some (JStr p)
        \<and> curl_calls st' = curl_calls st)"
proof (cases "exit_code res = Some 0")
  case False
  then show ?thesis by (simp add: on_close_exit)
next
  case True
  show ?thesis
  proof (cases "read_completion rt (responseData res)")
    case (Inl m)
    then show ?thesis using True by (simp add: on_close_unreadable)
  next
    case (Inr full)
    show ?thesis
    proof (cases "writeFileSync rt (fs st) (txtPath_of rt p (fst (split_response full)))
      (ocr_section (fst (split_response full)))")
      case (Inl e)
      then show ?thesis using True Inr by (simp add: on_close_save_failed)
    next
      case (Inr fs')
      then show ?thesis using True \<open>read_completion rt (responseData res) = Inr full\<close>
        by (simp add: on_close_saved append_keeps Let_def)
    qed
  qed
qed

lemma extract_reaches_curl:
  assumes "OPENAI_API_KEY st = Some key" "key \<noteq> []" "isValid (validateApiKey rt key)"
      and "validate_image rt (fs st) args = Inr (p, bytes)"
  shows "extractTextFromImage rt st args =
           on_close rt (st\<lparr>curl_calls := curl_calls st @ [requestBody rt p bytes]\<rparr>) p
             (curl rt key (requestBody rt p bytes))"
  using assms by (simp add: extractTextFromImage_def key_missing_def Let_def)

lemma extract_invalid:
  assumes "OPENAI_API_KEY st = Some key" "key \<noteq> []" "isValid (validateApiKey rt key)"
      and "validate_image rt (fs st) args = Inl m"
  shows "extractTextFromImage rt st args = (Resolved (soft_error m), st)"
  using assms by (simp add: extractTextFromImage_def key_missing_def Let_def)

lemma state_key_same: "st\<lparr>OPENAI_API_KEY := OPENAI_API_KEY st\<rparr> = st"
  by simp

lemma extract_cases:
  "(\<exists>m k. extractTextFromImage rt st args = (Resolved (soft_error m), st\<lparr>OPENAI_API_KEY := k\<rparr>))
   \<or> (\<exists>k key p bytes.
         validate_image rt (fs st) args = Inr (p, bytes)
         \<and> extractTextFromImage rt st args =
             on_close rt (st\<lparr>OPENAI_API_KEY := k, curl_calls := curl_calls st @ [requestBody rt p bytes]\<rparr>) p
               (curl rt key (requestBody rt p bytes)))"
proof (cases "key_missing (OPENAI_API_KEY st)")
  case True
  show ?thesis
  proof (cases "key_missing (getOpenAIApiKey rt)")
    case True
    with \<open>key_missing (OPENAI_API_KEY st)\<close> show ?thesis
      by (auto simp: extractTextFromImage_def Let_def)
  next
    case False
    show ?thesis
    proof (cases "validate_image rt (fs st) args")
      case (Inl m)
      with False \<open>key_missing (OPENAI_API_KEY st)\<close> show ?thesis
        by (auto simp: extractTextFromImage_def Let_def)
    next
      case (Inr pb)
      with False \<open>key_missing (OPENAI_API_KEY st)\<close> show ?thesis
        by (cases pb) (auto simp: extractTextFromImage_def Let_def)
    qed
  qed
next
  case False
  show ?thesis
  proof (cases "validate_image rt (fs st) args")
    case (Inl m)
    with False show ?thesis
      by (auto simp: extractTextFromImage_def Let_def intro: exI [of _ "OPENAI_API_KEY st"])
  next
    case (Inr pb)
    with False show ?thesis
      apply (cases pb)
      apply (auto simp: extractTextFromImage_def Let_def)
      apply (metis state_key_same)+
      done
  qed
qed

lemma validate_Inr:
  "validate_image rt files args = Inr (p, bytes) \<Longrightarrow>
   \<exists>ip w. opt_prop args ''image_path'' = Some (JStr ip) \<and> ip \<noteq> [] \<and> p = path_resolve rt ip
      \<and> files p = Some (File bytes True w) \<and> length bytes \<le> MAX_FILE_SIZE
      \<and> toLowerCase (path_extname rt p) \<in> set ALLOWED_EXTENSIONS"
  by (auto simp: validate_image_def Let_def readFileSync_def existsSync_def
           split: if_splits option.splits json.splits node.splits sum.splits)

lemma validate_too_large:
  "opt_prop args ''image_path'' = Some (JStr ip) \<Longrightarrow> ip \<noteq> [] \<Longrightarrow>
   files (path_resolve rt ip) = Some (File bytes r w) \<Longrightarrow> length bytes > MAX_FILE_SIZE \<Longrightarrow>
   validate_image rt files args =
     Inl (''File stats error: File too large: '' @ toFixed2_MB rt (length bytes) @ ''MB (max: 5MB)'')"
  by (frule opt_prop_truthy) (simp add: validate_image_def Let_def existsSync_def)

lemma extract_last:
  assumes "extractTextFromImage rt st args = (out, st')"
  shows "case out of
           Resolved r \<Rightarrow>
             if isError r
             then lastOcrResult st' = lastOcrResult st \<and> lastImagePath st' = lastImagePath st
             else lastOcrResult st' = Some (hd (content r))
                  \<and> (\<exists>ip. opt_prop args ''image_path'' = Some (JStr ip)
                        \<and> lastImagePath st' = Some (JStr (path_resolve rt ip)))
         | Rejected m \<Rightarrow>
             lastOcrResult st' = lastOcrResult st \<and> lastImagePath st' = lastImagePath st"
  using extract_cases [of rt st args]
proof (elim disjE exE conjE)
  fix m k
  assume "extractTextFromImage rt st args = (Resolved (soft_error m), st\<lparr>OPENAI_API_KEY := k\<rparr>)"
  with assms show ?thesis by (auto simp: soft_error_def)
next
  fix k key p bytes
  assume v: "validate_image rt (fs st) args = Inr (p, bytes)"
    and e: "extractTextFromImage rt st args =
             on_close rt (st\<lparr>OPENAI_API_KEY := k, curl_calls := curl_calls st @ [requestBody rt p bytes]\<rparr>) p
               (curl rt key (requestBody rt p bytes))"
  from validate_Inr [OF v] obtain ip where ip: "opt_prop args ''image_path'' = Some (JStr ip)"
     "p = path_resolve rt ip" by blast
  from on_close_cases [of rt "st\<lparr>OPENAI_API_KEY := k, curl_calls := curl_calls st @ [requestBody rt p bytes]\<rparr>" p
            "curl rt key (requestBody rt p bytes)"]
  show ?thesis using assms e ip by auto
qed

lemma extract_too_large:
  assumes "opt_prop args ''image_path'' = Some (JStr ip)" "ip \<noteq> []"
      "fs st (path_resolve rt ip) = Some (File bytes r w)" "length bytes > MAX_FILE_SIZE"
  shows "curl_calls (snd (extractTextFromImage rt st args)) = curl_calls st"
    and "\<exists>m. fst (extractTextFromImage rt st args) = Resolved \<lparr>content = [''Error: '' @ m], isError = True\<rparr>"
    and "fs (snd (extractTextFromImage rt st args)) = fs st"
proof -
  have v: "validate_image rt (fs st) args =
     Inl (''File stats error: File too large: '' @ toFixed2_MB rt (length bytes) @ ''MB (max: 5MB)'')"
    using assms by (simp add: validate_too_large)
  from extract_cases [of rt st args] v
  obtain m k where e: "extractTextFromImage rt st args = (Resolved (soft_error m), st\<lparr>OPENAI_API_KEY := k\<rparr>)"
    by auto
  show "curl_calls (snd (extractTextFromImage rt st args)) = curl_calls st" using e by simp
  show "\<exists>m. fst (extractTextFromImage rt st args) = Resolved \<lparr>content = [''Error: '' @ m], isError = True\<rparr>"
    using e by (auto simp: soft_error_def)
  show "fs (snd (extractTextFromImage rt st args)) = fs st" using e by simp
qed

lemma extract_too_large_message:
  assumes "OPENAI_API_KEY st = Some key" "key \<noteq> []" "isValid (validateApiKey rt key)"
      "opt_prop args ''image_path'' = Some (JStr ip)" "ip \<noteq> []"
      "fs st (path_resolve rt ip) = Some (File bytes r w)" "length bytes > MAX_FILE_SIZE"
  shows "extractTextFromImage rt st args =
     (Resolved \<lparr>content = [''Error: File stats error: File too large: ''
                             @ toFixed2_MB rt (length bytes) @ ''MB (max: 5MB)''],
                 isError = True\<rparr>, st)"
  using extract_invalid [OF assms(1-3) validate_too_large [where files = "fs st", OF assms(4-7)]]
  by (simp add: soft_error_def)


lemma separator_has_newline: "separator_at t \<Longrightarrow> CHR 10 \<in> set t"
  by (auto simp: separator_at_def prefix_def)

lemma no_newline_no_separator: "CHR 10 \<notin> set s \<Longrightarrow> \<not> separator_at (drop i s)"
  using separator_has_newline [of "drop i s"] set_drop_subset [of i s] by blast


lemma writeFileSync_Inr:
  "writeFileSync rt files p d = Inr files' \<Longrightarrow>
   (\<exists>r w. files' p = Some (File d r w)) \<and> (\<forall>q. q \<noteq> p \<longrightarrow> files' q = files q)"
  by (auto simp: writeFileSync_def split: option.splits node.splits if_splits)

lemma validate_not_found:
  "opt_prop args ''image_path'' = Some (JStr ip) \<Longrightarrow> ip \<noteq> [] \<Longrightarrow>
   files (path_resolve rt ip) = None \<Longrightarrow>
   validate_image rt files args =
     Inl (''File access error: File not found at path: '' @ path_resolve rt ip)"
  by (frule opt_prop_truthy) (simp add: validate_image_def Let_def existsSync_def)

lemma validate_not_a_file:
  "opt_prop args ''image_path'' = Some (JStr ip) \<Longrightarrow> ip \<noteq> [] \<Longrightarrow>
   files (path_resolve rt ip) = Some Dir \<Longrightarrow>
   validate_image rt files args =
     Inl (''File stats error: Not a file: '' @ path_resolve rt ip)"
  by (frule opt_prop_truthy) (simp add: validate_image_def Let_def existsSync_def)

lemma validate_bad_type:
  "opt_prop args ''image_path'' = Some (JStr ip) \<Longrightarrow> ip \<noteq> [] \<Longrightarrow>
   files (path_resolve rt ip) = Some (File bytes r w) \<Longrightarrow> length bytes \<le> MAX_FILE_SIZE \<Longrightarrow>
   toLowerCase (path_extname rt (path_resolve rt ip)) \<notin> set ALLOWED_EXTENSIONS \<Longrightarrow>
   validate_image rt files args =
     Inl (''Invalid file type: '' @ toLowerCase (path_extname rt (path_resolve rt ip))
          @ ''. Allowed types: .jpg, .jpeg, .png, .gif, .webp'')"
  apply (frule opt_prop_truthy)
  apply (simp add: validate_image_def Let_def existsSync_def)
  apply (simp add: ALLOWED_EXTENSIONS_def)
  done

lemma validate_unreadable:
  "opt_prop args ''image_path'' = Some (JStr ip) \<Longrightarrow> ip \<noteq> [] \<Longrightarrow>
   files (path_resolve rt ip) = Some (File bytes False w) \<Longrightarrow> length bytes \<le> MAX_FILE_SIZE \<Longrightarrow>
   toLowerCase (path_extname rt (path_resolve rt ip)) \<in> set ALLOWED_EXTENSIONS \<Longrightarrow>
   validate_image rt files args =
     Inl (''File read error: '' @ sys_error rt ''EACCES'' (path_resolve rt ip))"
  by (frule opt_prop_truthy) (simp add: validate_image_def Let_def existsSync_def readFileSync_def)

lemma validate_ok:
  "opt_prop args ''image_path'' = Some (JStr ip) \<Longrightarrow> ip \<noteq> [] \<Longrightarrow>
   files (path_resolve rt ip) = Some (File bytes True w) \<Longrightarrow> length bytes \<le> MAX_FILE_SIZE \<Longrightarrow>
   toLowerCase (path_extname rt (path_resolve rt ip)) \<in> set ALLOWED_EXTENSIONS \<Longrightarrow>
   validate_image rt files args = Inr (path_resolve rt ip, bytes)"
  by (frule opt_prop_truthy) (simp add: validate_image_def Let_def existsSync_def readFileSync_def)

lemma run_extract_soft:
  assumes "OPENAI_API_KEY st = Some key" "key \<noteq> []" "isValid (validateApiKey rt key)"
      and "validate_image rt (fs st) args = Inl m"
  shows "run_extract rt st i args =
           ([Success i (ToolResult \<lparr>content = [''Error: '' @ m], isError = True\<rparr>)], st)"
  by (simp add: run_extract_def extract_invalid [OF assms] sendResponse_def soft_error_def)

lemma read_completion_error_payload:
  "JSON_parse rt data = Inr response \<Longrightarrow> response \<noteq> JNull \<Longrightarrow>
   truthy (js_member response ''error'') \<Longrightarrow>
   read_completion rt data =
     Inl (''OpenAI API error: '' @ template rt (opt_prop (js_member response ''error'') ''message''))"
  by (cases response) (simp_all add: read_completion_def)

lemma handleCallTool_extract:
  "truthy params \<Longrightarrow> opt_prop params ''name'' = Some (JStr ''extract_text_from_image'') \<Longrightarrow>
   handleCallTool rt st i params = run_extract rt st i (opt_prop params ''arguments'')"
  by (simp add: handleCallTool_def OCR_TOOL_name_def Let_def)

section \<open>Oversized files\<close>

lemmas demo_line_defs = demo_lines_def call_line_def tools_line_def llm_line_def page_line_def summary_line_def empty_line_def payload_line_def

lemma demo_key_state: "OPENAI_API_KEY demo_st = Some demo_key" "demo_key \<noteq> []"
  by (simp_all add: demo_st_def demo_key_def)

lemma demo_key_ok: "isValid (validateApiKey demo_rt demo_key)"
  by (simp add: validateApiKey_def demo_rt_def demo_key_def Let_def)

lemma image_args_prop: "opt_prop (image_args p) ''image_path'' = Some (JStr p)"
  by (simp add: image_args_def)

text \<open>
  Claim C6. For an \<^verbatim>\<open>image_path\<close> that resolves to a regular file of more than
  5 * 1024 * 1024 bytes, \<^verbatim>\<open>extractTextFromImage\<close> hands no request to curl (the trace
  of remote calls is unchanged), changes no file, and resolves with an error block;
  with a usable API key the block is the \<^verbatim>\<open>File too large\<close> error (rethrown by the
  surrounding \<^verbatim>\<open>try\<close> with the prefix \<^verbatim>\<open>File stats error:\<close>) and the state is unchanged.
  Without a key the function has already failed, before looking at the file.
\<close>

theorem C6_oversized:
  assumes "opt_prop args ''image_path'' = Some (JStr ip)" "ip \<noteq> []"
      "fs st (path_resolve rt ip) = Some (File bytes r w)" "length bytes > 5 * 1024 * 1024"
  shows "curl_calls (snd (extractTextFromImage rt st args)) = curl_calls st
     \<and> fs (snd (extractTextFromImage rt st args)) = fs st
     \<and> (\<exists>m. fst (extractTextFromImage rt st args) =
              Resolved \<lparr>content = [''Error: '' @ m], isError = True\<rparr>)
     \<and> (OPENAI_API_KEY st = Some key \<and> key \<noteq> [] \<and> isValid (validateApiKey rt key) \<longrightarrow>
          extractTextFromImage rt st args =
            (Resolved \<lparr>content = [''Error: File stats error: File too large: ''
                                    @ toFixed2_MB rt (length bytes) @ ''MB (max: 5MB)''],
                        isError = True\<rparr>, st))"
proof -
  have big: "length bytes > MAX_FILE_SIZE" using assms(4) by (simp add: MAX_FILE_SIZE_def)
  show ?thesis
    using extract_too_large [OF assms(1-3) big]
          extract_too_large_message [OF _ _ _ assms(1-3) big]
    by blast
qed

theorem C6_oversized_witness:
  "opt_prop (image_args ''/img/big.png'') ''image_path'' = Some (JStr ''/img/big.png'')
   \<and> fs demo_st (path_resolve demo_rt ''/img/big.png'')
       = Some (File (replicate 5242881 (CHR ''a'')) True True)
   \<and> length (replicate 5242881 (CHR ''a'')) > 5 * 1024 * 1024
   \<and> extractTextFromImage demo_rt demo_st (image_args ''/img/big.png'') =
       (Resolved \<lparr>content = [''Error: File stats error: File too large: 5.00MB (max: 5MB)''],
                   isError = True\<rparr>, demo_st)
   \<and> curl_calls (snd (extractTextFromImage demo_rt demo_st (image_args ''/img/big.png''))) = []"
proof -
  have f: "fs demo_st (path_resolve demo_rt ''/img/big.png'')
       = Some (File (replicate 5242881 (CHR ''a'')) True True)"
    by (simp add: demo_st_def demo_fs_def demo_rt_def)
  have l: "length (replicate 5242881 (CHR ''a'')) > 5 * 1024 * 1024" by simp
  have n: "''/img/big.png'' \<noteq> []" by simp
  note t = C6_oversized [OF image_args_prop n f l, of demo_key]
  have m: "toFixed2_MB demo_rt (length (replicate 5242881 (CHR ''a''))) = ''5.00''"
    by (simp add: demo_rt_def)
  have c: "curl_calls demo_st = []" by (simp add: demo_st_def)
  show ?thesis
    using t demo_key_state demo_key_ok f l m c image_args_prop by simp
qed

section \<open>Text and analysis\<close>

text \<open>
  Claim C9. A separator is two line feeds directly followed by one of the headings
  \<^verbatim>\<open>Analysis:\<close>, \<^verbatim>\<open>Interpretation:\<close>, \<^verbatim>\<open>Summary:\<close>, \<^verbatim>\<open>Understanding:\<close> in any case.
  If the completion text has no separator, the extracted text is the whole text and
  the analysis is empty. Otherwise, with \<open>i\<close> the position of the first separator, the
  extracted text is everything before position \<open>i\<close>, and the analysis is everything
  from the heading on (the two line feeds between them are dropped). The close
  handler records and returns the first part as the extracted text and, once the text
  is saved, passes a non-empty second part to \<^verbatim>\<open>handleAppendAnalysis\<close>.
\<close>

theorem C9_split_response:
  "(separator_at t \<longleftrightarrow>
      (\<exists>u v. t = [CHR 10, CHR 10] @ u @ v
         \<and> toLowerCase u \<in> {''analysis:'', ''interpretation:'', ''summary:'', ''understanding:''}))
   \<and> ((\<forall>i. \<not> separator_at (drop i s)) \<longrightarrow> split_response s = (s, []))
   \<and> (separator_at (drop i s) \<and> (\<forall>j<i. \<not> separator_at (drop j s)) \<longrightarrow>
        split_response s = (take i s, drop (i + 2) s)
        \<and> s = take i s @ [CHR 10, CHR 10] @ drop (i + 2) s
        \<and> heading_ahead (drop (i + 2) s))
   \<and> (exit_code res = Some 0 \<and> read_completion rt (responseData res) = Inr s \<longrightarrow>
        lastOcrResult (snd (on_close rt st p res)) = Some (fst (split_response s))
        \<and> (\<exists>second. fst (on_close rt st p res) =
              Resolved \<lparr>content = [fst (split_response s), second], isError = False\<rparr>)
        \<and> (\<forall>fs'. writeFileSync rt (fs st) (txtPath_of rt p (fst (split_response s)))
                    (ocr_section (fst (split_response s))) = Inr fs' \<longrightarrow>
              snd (on_close rt st p res) =
                (let st2 = st\<lparr>lastOcrResult := Some (fst (split_response s)),
                               lastImagePath := Some (JStr p), fs := fs'\<rparr>
                 in if snd (split_response s) \<noteq> []
                    then snd (handleAppendAnalysis rt st2
                                (append_args (txtPath_of rt p (fst (split_response s)))
                                             (snd (split_response s))))
                    else st2)))"
proof (intro conjI impI allI)
  show "separator_at t \<longleftrightarrow>
      (\<exists>u v. t = [CHR 10, CHR 10] @ u @ v
         \<and> toLowerCase u \<in> {''analysis:'', ''interpretation:'', ''summary:'', ''understanding:''})"
    by (rule separator_at_iff)
next
  assume "\<forall>i. \<not> separator_at (drop i s)"
  then show "split_response s = (s, [])" by (rule split_response_none)
next
  assume h: "separator_at (drop i s) \<and> (\<forall>j<i. \<not> separator_at (drop j s))"
  then show "split_response s = (take i s, drop (i + 2) s)"
    using split_response_first [of i s] by blast
  from h obtain zs where zs: "drop i s = [CHR 10, CHR 10] @ zs"
    by (auto simp: separator_at_def prefix_def)
  have dd: "drop (i + 2) s = drop 2 (drop i s)" by (simp add: add.commute)
  have d: "drop (i + 2) s = zs" unfolding dd zs by simp
  have "s = take i s @ drop i s" by simp
  then show "s = take i s @ [CHR 10, CHR 10] @ drop (i + 2) s"
    unfolding d using zs by simp
  from h have "heading_ahead (drop 2 (drop i s))" by (simp add: separator_at_def)
  then show "heading_ahead (drop (i + 2) s)" unfolding dd .
next
  assume h: "exit_code res = Some 0 \<and> read_completion rt (responseData res) = Inr s"
  show "lastOcrResult (snd (on_close rt st p res)) = Some (fst (split_response s))"
    using h
    by (cases "writeFileSync rt (fs st) (txtPath_of rt p (fst (split_response s)))
                    (ocr_section (fst (split_response s)))")
       (simp_all add: on_close_save_failed on_close_saved Let_def append_keeps)
  show "\<exists>second. fst (on_close rt st p res) =
              Resolved \<lparr>content = [fst (split_response s), second], isError = False\<rparr>"
    using h
    by (cases "writeFileSync rt (fs st) (txtPath_of rt p (fst (split_response s)))
                    (ocr_section (fst (split_response s)))")
       (simp_all add: on_close_save_failed on_close_saved)
next
  fix fs'
  assume "exit_code res = Some 0 \<and> read_completion rt (responseData res) = Inr s"
     and "writeFileSync rt (fs st) (txtPath_of rt p (fst (split_response s)))
                    (ocr_section (fst (split_response s))) = Inr fs'"
  then show "snd (on_close rt st p res) =
                (let st2 = st\<lparr>lastOcrResult := Some (fst (split_response s)),
                               lastImagePath := Some (JStr p), fs := fs'\<rparr>
                 in if snd (split_response s) \<noteq> []
                    then snd (handleAppendAnalysis rt st2
                                (append_args (txtPath_of rt p (fst (split_response s)))
                                             (snd (split_response s))))
                    else st2)"
    by (simp add: on_close_saved)
qed

lemmas sep_defs = separator_at_def heading_ahead_def toLowerCase_def lower_char_def

lemma demo_sep: "separator_at (drop 2 (''Hi'' @ [CHR 10, CHR 10] @ ''Summary: ok''))"
  by (simp add: sep_defs)

lemma demo_nosep: "\<forall>j<2. \<not> separator_at (drop j (''Hi'' @ [CHR 10, CHR 10] @ ''Summary: ok''))"
proof (intro allI impI)
  fix j :: nat assume "j < 2"
  then have "j = 0 \<or> j = 1" by auto
  then show "\<not> separator_at (drop j (''Hi'' @ [CHR 10, CHR 10] @ ''Summary: ok''))"
    by (auto simp: sep_defs)
qed

theorem C9_split_response_witness:
  "separator_at (drop 2 (''Hi'' @ [CHR 10, CHR 10] @ ''Summary: ok''))
   \<and> \<not> separator_at (drop 0 (''Hi'' @ [CHR 10, CHR 10] @ ''Summary: ok''))
   \<and> \<not> separator_at (drop 1 (''Hi'' @ [CHR 10, CHR 10] @ ''Summary: ok''))
   \<and> split_response (''Hi'' @ [CHR 10, CHR 10] @ ''Summary: ok'') = (''Hi'', ''Summary: ok'')
   \<and> (\<forall>i. \<not> separator_at (drop i ''Total: 12''))
   \<and> split_response ''Total: 12'' = (''Total: 12'', [])"
proof -
  have a: "split_response (''Hi'' @ [CHR 10, CHR 10] @ ''Summary: ok'') = (''Hi'', ''Summary: ok'')"
    using C9_split_response [where s = "''Hi'' @ [CHR 10, CHR 10] @ ''Summary: ok''" and i = 2]
          demo_sep demo_nosep
    by simp
  have n: "\<forall>i. \<not> separator_at (drop i ''Total: 12'')"
    by (simp add: no_newline_no_separator)
  have b: "split_response ''Total: 12'' = (''Total: 12'', [])"
    using C9_split_response [where s = "''Total: 12''"] n by blast
  have z: "\<not> separator_at (drop 0 (''Hi'' @ [CHR 10, CHR 10] @ ''Summary: ok''))"
          "\<not> separator_at (drop 1 (''Hi'' @ [CHR 10, CHR 10] @ ''Summary: ok''))"
    by (simp_all add: sep_defs)
  show ?thesis using a b n demo_sep z by blast
qed

section \<open>An empty completion\<close>



lemmas demo_path_defs = demo_runtime_dirname_def demo_runtime_basename_def demo_runtime_extname_def
  demo_runtime_join_def demo_basename_def

lemma demo_page_valid:
  assumes "path_resolve rt ''/img/page.png'' = ''/img/page.png''"
      and "path_extname rt ''/img/page.png'' = ''.png''"
  shows "validate_image rt (fs demo_st) (image_args ''/img/page.png'') = Inr (''/img/page.png'', ''abc'')"
proof -
  have f: "fs demo_st (path_resolve rt ''/img/page.png'') = Some (File ''abc'' True True)"
    by (simp add: assms demo_st_def demo_fs_def)
  have e: "toLowerCase (path_extname rt (path_resolve rt ''/img/page.png'')) \<in> set ALLOWED_EXTENSIONS"
    by (simp add: assms toLowerCase_def lower_char_def ALLOWED_EXTENSIONS_def)
  have l: "length ''abc'' \<le> MAX_FILE_SIZE" by (simp add: MAX_FILE_SIZE_def)
  have n: "''/img/page.png'' \<noteq> []" by simp
  show ?thesis
    using validate_ok [where files = "fs demo_st", OF image_args_prop n f l e] assms by simp
qed




section \<open>Failures of the extraction tool and their replies\<close>

lemma run_extract_rejected:
  "extractTextFromImage rt st args = (Rejected m, st') \<Longrightarrow>
   run_extract rt st i args =
     ([Failure (if truthy i then the i else JStr ''error'') (- 32000) (''Error executing tool: '' @ m)], st')"
  by (simp add: run_extract_def sendError_def)

lemma run_extract_resolved:
  "extractTextFromImage rt st args = (Resolved r, st') \<Longrightarrow>
   run_extract rt st i args = ([Success i (ToolResult r)], st')"
  by (simp add: run_extract_def sendResponse_def)

lemma tools_call_string:
  "s \<noteq> [] \<Longrightarrow>
   handleToolsCall rt st i (Some (JStr s)) = run_extract rt st i (Some (JObj [(''image_path'', JStr s)]))"
  by (simp add: handleToolsCall_def resolve_tool_call_def OCR_TOOL_name_def)

text \<open>
  Claim C1, as the code has it. \<open>run_extract\<close> is the \<^verbatim>\<open>try\<close>/\<^verbatim>\<open>catch\<close> that both call
  handlers put around the tool. With a usable API key and a non-empty \<^verbatim>\<open>image_path\<close>:
  \<^item> a missing file, a path that is not a regular file, an oversized file, a disallowed
    extension and an unreadable file are caught inside the tool: the reply is a result
    with one \<^verbatim>\<open>Error: ...\<close> block and \<^verbatim>\<open>isError: true\<close>, and the state is unchanged;
  \<^item> a curl exit code other than 0, a response that cannot be read and an error payload
    of the service reject the promise that the tool returns without awaiting it; the
    handler's \<^verbatim>\<open>catch\<close> answers with the error reply of code -32000;
  \<^item> a failure to save is caught in the close handler: the reply is a result with the
    extracted text and a warning block, without \<^verbatim>\<open>isError\<close>.
\<close>

theorem C1_failure_replies:
  assumes key: "OPENAI_API_KEY st = Some key" "key \<noteq> []" "isValid (validateApiKey rt key)"
      and args: "opt_prop args ''image_path'' = Some (JStr ip)" "ip \<noteq> []"
      and P: "P = path_resolve rt ip"
      and res: "res = curl rt key (requestBody rt P bytes)"
  shows
   "(fs st P = None \<longrightarrow>
       run_extract rt st i args =
         ([Success i (ToolResult \<lparr>content = [''Error: File access error: File not found at path: '' @ P],
                                   isError = True\<rparr>)], st))
    \<and> (fs st P = Some Dir \<longrightarrow>
       run_extract rt st i args =
         ([Success i (ToolResult \<lparr>content = [''Error: File stats error: Not a file: '' @ P],
                                   isError = True\<rparr>)], st))
    \<and> (fs st P = Some (File bytes r w) \<and> length bytes > 5 * 1024 * 1024 \<longrightarrow>
       run_extract rt st i args =
         ([Success i (ToolResult \<lparr>content = [''Error: File stats error: File too large: ''
                                               @ toFixed2_MB rt (length bytes) @ ''MB (max: 5MB)''],
                                   isError = True\<rparr>)], st))
    \<and> (fs st P = Some (File bytes r w) \<and> length bytes \<le> 5 * 1024 * 1024
        \<and> toLowerCase (path_extname rt P) \<notin> {''.jpg'', ''.jpeg'', ''.png'', ''.gif'', ''.webp''} \<longrightarrow>
       run_extract rt st i args =
         ([Success i (ToolResult \<lparr>content = [''Error: Invalid file type: ''
                                               @ toLowerCase (path_extname rt P)
                                               @ ''. Allowed types: .jpg, .jpeg, .png, .gif, .webp''],
                                   isError = True\<rparr>)], st))
    \<and> (fs st P = Some (File bytes False w) \<and> length bytes \<le> 5 * 1024 * 1024
        \<and> toLowerCase (path_extname rt P) \<in> {''.jpg'', ''.jpeg'', ''.png'', ''.gif'', ''.webp''} \<longrightarrow>
       run_extract rt st i args =
         ([Success i (ToolResult \<lparr>content = [''Error: File read error: '' @ sys_error rt ''EACCES'' P],
                                   isError = True\<rparr>)], st))
    \<and> (fs st P = Some (File bytes True w) \<and> length bytes \<le> 5 * 1024 * 1024
        \<and> toLowerCase (path_extname rt P) \<in> {''.jpg'', ''.jpeg'', ''.png'', ''.gif'', ''.webp''} \<longrightarrow>
         (exit_code res \<noteq> Some 0 \<longrightarrow>
            fst (run_extract rt st i args) =
              [Failure (if truthy i then the i else JStr ''error'') (- 32000)
                 (''Error executing tool: curl process exited with code ''
                  @ String rt (exit_code_value (exit_code res)) @ '': '' @ errorOutput res)])
       \<and> (exit_code res = Some 0 \<and> read_completion rt (responseData res) = Inl m \<longrightarrow>
            fst (run_extract rt st i args) =
              [Failure (if truthy i then the i else JStr ''error'') (- 32000)
                 (''Error executing tool: '' @ m)])
       \<and> (exit_code res = Some 0 \<and> JSON_parse rt (responseData res) = Inr response
             \<and> response \<noteq> JNull \<and> truthy (js_member response ''error'') \<longrightarrow>
            fst (run_extract rt st i args) =
              [Failure (if truthy i then the i else JStr ''error'') (- 32000)
                 (''Error executing tool: OpenAI API error: ''
                  @ template rt (opt_prop (js_member response ''error'') ''message''))])
       \<and> (exit_code res = Some 0 \<and> read_completion rt (responseData res) = Inr full
             \<and> writeFileSync rt (fs st) (txtPath_of rt P (fst (split_response full)))
                   (ocr_section (fst (split_response full))) = Inl e \<longrightarrow>
            fst (run_extract rt st i args) =
              [Success i (ToolResult
                 \<lparr>content = [fst (split_response full),
                             [CHR 10, CHR 10] @ ''Warning: Failed to save text file: ''
                             @ ''Failed to save text file: '' @ e],
                  isError = False\<rparr>)]))
    \<and> (truthy params \<and> opt_prop params ''name'' = Some (JStr ''extract_text_from_image'') \<longrightarrow>
         handleCallTool rt st i params = run_extract rt st i (opt_prop params ''arguments''))
    \<and> (s \<noteq> [] \<longrightarrow>
         handleToolsCall rt st i (Some (JStr s)) =
           run_extract rt st i (Some (JObj [(''image_path'', JStr s)])))"
proof -
  have allowed: "set ALLOWED_EXTENSIONS = {''.jpg'', ''.jpeg'', ''.png'', ''.gif'', ''.webp''}"
    by (simp add: ALLOWED_EXTENSIONS_def)
  have max: "MAX_FILE_SIZE = 5 * 1024 * 1024" by (simp add: MAX_FILE_SIZE_def)
  note soft = run_extract_soft [OF key]
  have c1: "fs st P = None \<longrightarrow> run_extract rt st i args =
         ([Success i (ToolResult \<lparr>content = [''Error: File access error: File not found at path: '' @ P],
                                   isError = True\<rparr>)], st)"
    using soft [OF validate_not_found [where files = "fs st", OF args]] P by simp
  have c2: "fs st P = Some Dir \<longrightarrow> run_extract rt st i args =
         ([Success i (ToolResult \<lparr>content = [''Error: File stats error: Not a file: '' @ P],
                                   isError = True\<rparr>)], st)"
    using soft [OF validate_not_a_file [where files = "fs st", OF args]] P by simp
  have c3: "fs st P = Some (File bytes r w) \<and> length bytes > 5 * 1024 * 1024 \<longrightarrow>
       run_extract rt st i args =
         ([Success i (ToolResult \<lparr>content = [''Error: File stats error: File too large: ''
                                               @ toFixed2_MB rt (length bytes) @ ''MB (max: 5MB)''],
                                   isError = True\<rparr>)], st)"
    using soft [OF validate_too_large [where files = "fs st", OF args]] P max by simp
  have c4: "fs st P = Some (File bytes r w) \<and> length bytes \<le> 5 * 1024 * 1024
        \<and> toLowerCase (path_extname rt P) \<notin> {''.jpg'', ''.jpeg'', ''.png'', ''.gif'', ''.webp''} \<longrightarrow>
       run_extract rt st i args =
         ([Success i (ToolResult \<lparr>content = [''Error: Invalid file type: ''
                                               @ toLowerCase (path_extname rt P)
                                               @ ''. Allowed types: .jpg, .jpeg, .png, .gif, .webp''],
                                   isError = True\<rparr>)], st)"
    using soft [OF validate_bad_type [where files = "fs st", OF args]] P max allowed by simp
  have c5: "fs st P = Some (File bytes False w) \<and> length bytes \<le> 5 * 1024 * 1024
        \<and> toLowerCase (path_extname rt P) \<in> {''.jpg'', ''.jpeg'', ''.png'', ''.gif'', ''.webp''} \<longrightarrow>
       run_extract rt st i args =
         ([Success i (ToolResult \<lparr>content = [''Error: File read error: '' @ sys_error rt ''EACCES'' P],
                                   isError = True\<rparr>)], st)"
    using soft [OF validate_unreadable [where files = "fs st", OF args]] P max allowed by simp
  have c6: "fs st P = Some (File bytes True w) \<and> length bytes \<le> 5 * 1024 * 1024
        \<and> toLowerCase (path_extname rt P) \<in> {''.jpg'', ''.jpeg'', ''.png'', ''.gif'', ''.webp''} \<longrightarrow>
         (exit_code res \<noteq> Some 0 \<longrightarrow>
            fst (run_extract rt st i args) =
              [Failure (if truthy i then the i else JStr ''error'') (- 32000)
                 (''Error executing tool: curl process exited with code ''
                  @ String rt (exit_code_value (exit_code res)) @ '': '' @ errorOutput res)])
       \<and> (exit_code res = Some 0 \<and> read_completion rt (responseData res) = Inl m \<longrightarrow>
            fst (run_extract rt st i args) =
              [Failure (if truthy i then the i else JStr ''error'') (- 32000)
                 (''Error executing tool: '' @ m)])
       \<and> (exit_code res = Some 0 \<and> JSON_parse rt (responseData res) = Inr response
             \<and> response \<noteq> JNull \<and> truthy (js_member response ''error'') \<longrightarrow>
            fst (run_extract rt st i args) =
              [Failure (if truthy i then the i else JStr ''error'') (- 32000)
                 (''Error executing tool: OpenAI API error: ''
                  @ template rt (opt_prop (js_member response ''error'') ''message''))])
       \<and> (exit_code res = Some 0 \<and> read_completion rt (responseData res) = Inr full
             \<and> writeFileSync rt (fs st) (txtPath_of rt P (fst (split_response full)))
                   (ocr_section (fst (split_response full))) = Inl e \<longrightarrow>
            fst (run_extract rt st i args) =
              [Success i (ToolResult
                 \<lparr>content = [fst (split_response full),
                             [CHR 10, CHR 10] @ ''Warning: Failed to save text file: ''
                             @ ''Failed to save text file: '' @ e],
                  isError = False\<rparr>)])"
  proof (intro impI)
    assume h: "fs st P = Some (File bytes True w) \<and> length bytes \<le> 5 * 1024 * 1024
        \<and> toLowerCase (path_extname rt P) \<in> {''.jpg'', ''.jpeg'', ''.png'', ''.gif'', ''.webp''}"
    let ?st = "st\<lparr>curl_calls := curl_calls st @ [requestBody rt P bytes]\<rparr>"
    have v: "validate_image rt (fs st) args = Inr (P, bytes)"
      using validate_ok [where files = "fs st", OF args] h P max allowed by simp
    have e: "extractTextFromImage rt st args = on_close rt ?st P res"
      unfolding res by (rule extract_reaches_curl [OF key v])
    have f: "fs ?st = fs st" by simp
    show "(exit_code res \<noteq> Some 0 \<longrightarrow>
            fst (run_extract rt st i args) =
              [Failure (if truthy i then the i else JStr ''error'') (- 32000)
                 (''Error executing tool: curl process exited with code ''
                  @ String rt (exit_code_value (exit_code res)) @ '': '' @ errorOutput res)])
       \<and> (exit_code res = Some 0 \<and> read_completion rt (responseData res) = Inl m \<longrightarrow>
            fst (run_extract rt st i args) =
              [Failure (if truthy i then the i else JStr ''error'') (- 32000)
                 (''Error executing tool: '' @ m)])
       \<and> (exit_code res = Some 0 \<and> JSON_parse rt (responseData res) = Inr response
             \<and> response \<noteq> JNull \<and> truthy (js_member response ''error'') \<longrightarrow>
            fst (run_extract rt st i args) =
              [Failure (if truthy i then the i else JStr ''error'') (- 32000)
                 (''Error executing tool: OpenAI API error: ''
                  @ template rt (opt_prop (js_member response ''error'') ''message''))])
       \<and> (exit_code res = Some 0 \<and> read_completion rt (responseData res) = Inr full
             \<and> writeFileSync rt (fs st) (txtPath_of rt P (fst (split_response full)))
                   (ocr_section (fst (split_response full))) = Inl e \<longrightarrow>
            fst (run_extract rt st i args) =
              [Success i (ToolResult
                 \<lparr>content = [fst (split_response full),
                             [CHR 10, CHR 10] @ ''Warning: Failed to save text file: ''
                             @ ''Failed to save text file: '' @ e],
                  isError = False\<rparr>)])"
    proof (intro conjI impI)
      assume "exit_code res \<noteq> Some 0"
      then show "fst (run_extract rt st i args) =
              [Failure (if truthy i then the i else JStr ''error'') (- 32000)
                 (''Error executing tool: curl process exited with code ''
                  @ String rt (exit_code_value (exit_code res)) @ '': '' @ errorOutput res)]"
        using e by (simp add: on_close_exit run_extract_rejected)
    next
      assume "exit_code res = Some 0 \<and> read_completion rt (responseData res) = Inl m"
      then show "fst (run_extract rt st i args) =
              [Failure (if truthy i then the i else JStr ''error'') (- 32000)
                 (''Error executing tool: '' @ m)]"
        using e by (simp add: on_close_unreadable run_extract_rejected)
    next
      assume a: "exit_code res = Some 0 \<and> JSON_parse rt (responseData res) = Inr response
             \<and> response \<noteq> JNull \<and> truthy (js_member response ''error'')"
      then have "read_completion rt (responseData res) =
          Inl (''OpenAI API error: '' @ template rt (opt_prop (js_member response ''error'') ''message''))"
        by (simp add: read_completion_error_payload)
      then show "fst (run_extract rt st i args) =
              [Failure (if truthy i then the i else JStr ''error'') (- 32000)
                 (''Error executing tool: OpenAI API error: ''
                  @ template rt (opt_prop (js_member response ''error'') ''message''))]"
        using e a by (simp add: on_close_unreadable run_extract_rejected)
    next
      assume a: "exit_code res = Some 0 \<and> read_completion rt (responseData res) = Inr full
             \<and> writeFileSync rt (fs st) (txtPath_of rt P (fst (split_response full)))
                   (ocr_section (fst (split_response full))) = Inl e"
      then have "on_close rt ?st P res =
         (Resolved \<lparr>content = [fst (split_response full),
                             [CHR 10, CHR 10] @ ''Warning: Failed to save text file: ''
                             @ ''Failed to save text file: '' @ e],
                 isError = False\<rparr>,
          ?st\<lparr>lastOcrResult := Some (fst (split_response full)), lastImagePath := Some (JStr P)\<rparr>)"
        by (intro on_close_save_failed) (simp_all add: f)
      then show "fst (run_extract rt st i args) =
              [Success i (ToolResult
                 \<lparr>content = [fst (split_response full),
                             [CHR 10, CHR 10] @ ''Warning: Failed to save text file: ''
                             @ ''Failed to save text file: '' @ e],
                  isError = False\<rparr>)]"
        using e by (simp add: run_extract_resolved)
    qed
  qed
  have c7: "truthy params \<and> opt_prop params ''name'' = Some (JStr ''extract_text_from_image'') \<longrightarrow>
         handleCallTool rt st i params = run_extract rt st i (opt_prop params ''arguments'')"
    by (simp add: handleCallTool_extract)
  have c8: "s \<noteq> [] \<longrightarrow>
         handleToolsCall rt st i (Some (JStr s)) =
           run_extract rt st i (Some (JObj [(''image_path'', JStr s)]))"
    by (simp add: tools_call_string)
  show ?thesis
    by (intro conjI c1 c2 c3 c4 c5 c6 c7 c8)
qed

lemma page_call_props:
  "truthy page_call" "opt_prop page_call ''name'' = Some (JStr ''extract_text_from_image'')"
  "opt_prop page_call ''arguments'' = image_args ''/img/page.png''"
  by (simp_all add: page_call_def image_args_def)

lemmas demo_rt_defs = demo_rt_exit7_def demo_rt_payload_def demo_rt_empty_def demo_rt_summary_def
  demo_rt_readonly_def demo_rt_sorted_def demo_rt_def

lemma demo_keys_ok:
  "isValid (validateApiKey demo_rt_exit7 demo_key)"
  "isValid (validateApiKey demo_rt_payload demo_key)"
  "isValid (validateApiKey demo_rt_readonly demo_key)"
  by (simp_all add: validateApiKey_def demo_rt_defs demo_key_def Let_def)

lemma demo_page_valid_variants:
  "validate_image demo_rt (fs demo_st) (image_args ''/img/page.png'') = Inr (''/img/page.png'', ''abc'')"
  "validate_image demo_rt_exit7 (fs demo_st) (image_args ''/img/page.png'') = Inr (''/img/page.png'', ''abc'')"
  "validate_image demo_rt_payload (fs demo_st) (image_args ''/img/page.png'') = Inr (''/img/page.png'', ''abc'')"
  "validate_image demo_rt_readonly (fs demo_st) (image_args ''/img/page.png'') = Inr (''/img/page.png'', ''abc'')"
  by (rule demo_page_valid; simp add: demo_rt_defs demo_path_defs)+

lemma demo_exit7:
  "curl demo_rt_exit7 demo_key (requestBody demo_rt_exit7 ''/img/page.png'' ''abc'')
     = \<lparr>exit_code = Some 7, responseData = [], errorOutput = ''Failed to connect''\<rparr>"
  by (simp add: demo_rt_exit7_def)

lemma demo_payload:
  "curl demo_rt_payload demo_key (requestBody demo_rt_payload ''/img/page.png'' ''abc'') = curl_ok payload_line"
  "JSON_parse demo_rt_payload payload_line
     = Inr (JObj [(''error'', JObj [(''message'', JStr ''Incorrect API key provided'')])])"
  by (simp_all add: demo_rt_payload_def demo_rt_def demo_line_defs)

lemma demo_readonly:
  "curl demo_rt_readonly demo_key (requestBody demo_rt_readonly ''/img/page.png'' ''abc'') = curl_ok page_line"
  "read_completion demo_rt_readonly page_line = Inr ''Page 11882''"
  by (simp_all add: demo_rt_readonly_def demo_rt_def demo_line_defs read_completion_def completion_of_def)

lemma split_page: "split_response ''Page 11882'' = (''Page 11882'', [])"
  by (rule split_response_none) (simp add: no_newline_no_separator)

lemma demo_readonly_write:
  "writeFileSync demo_rt_readonly (fs demo_st) (txtPath_of demo_rt_readonly ''/img/page.png'' ''Page 11882'')
     (ocr_section ''Page 11882'') = Inl ''ENOENT''"
  by (simp add: writeFileSync_def txtPath_of_def demo_rt_readonly_def demo_rt_def demo_path_defs
        suffix_to_prefix demo_st_def demo_fs_def)

lemma demo_exit7_reply:
  "handleCallTool demo_rt_exit7 demo_st (Some (JNum 7)) page_call =
     ([Failure (JNum 7) (- 32000)
         ''Error executing tool: curl process exited with code 7: Failed to connect''],
      demo_st\<lparr>curl_calls := curl_calls demo_st
                 @ [requestBody demo_rt_exit7 ''/img/page.png'' ''abc'']\<rparr>)"
proof -
  have e: "extractTextFromImage demo_rt_exit7 demo_st (image_args ''/img/page.png'') =
      (Rejected ''curl process exited with code 7: Failed to connect'',
       demo_st\<lparr>curl_calls := curl_calls demo_st @ [requestBody demo_rt_exit7 ''/img/page.png'' ''abc'']\<rparr>)"
    unfolding extract_reaches_curl [OF demo_key_state demo_keys_ok(1) demo_page_valid_variants(2)]
    by (simp add: on_close_exit demo_exit7 exit_code_value_def) (simp add: demo_rt_exit7_def demo_rt_def)
  show ?thesis
    by (simp add: handleCallTool_extract page_call_props run_extract_rejected [OF e])
qed

lemma demo_readonly_reply:
  "fst (handleCallTool demo_rt_readonly demo_st (Some (JNum 7)) page_call) =
     [Success (Some (JNum 7)) (ToolResult
        \<lparr>content = [''Page 11882'',
                    [CHR 10, CHR 10] @ ''Warning: Failed to save text file: Failed to save text file: ENOENT''],
         isError = False\<rparr>)]"
proof -
  let ?st = "demo_st\<lparr>curl_calls := curl_calls demo_st @ [requestBody demo_rt_readonly ''/img/page.png'' ''abc'']\<rparr>"
  have x: "exit_code (curl_ok page_line) = Some 0" "responseData (curl_ok page_line) = page_line"
    by (simp_all add: curl_ok_def)
  have r: "read_completion demo_rt_readonly (responseData (curl_ok page_line)) = Inr ''Page 11882''"
    by (simp add: x demo_readonly)
  have w: "writeFileSync demo_rt_readonly (fs ?st)
             (txtPath_of demo_rt_readonly ''/img/page.png'' (fst (split_response ''Page 11882'')))
             (ocr_section (fst (split_response ''Page 11882''))) = Inl ''ENOENT''"
    by (simp add: split_page demo_readonly_write)
  have e: "extractTextFromImage demo_rt_readonly demo_st (image_args ''/img/page.png'') =
      on_close demo_rt_readonly ?st ''/img/page.png'' (curl_ok page_line)"
    unfolding extract_reaches_curl [OF demo_key_state demo_keys_ok(3) demo_page_valid_variants(4)]
    by (simp add: demo_readonly)
  show ?thesis
    by (simp add: handleCallTool_extract page_call_props run_extract_def e
          on_close_save_failed [OF x(1) r w] split_page sendResponse_def)
qed

text \<open>
  Claim C1 as stated fails. When curl exits with code 7, the reply to a \<^verbatim>\<open>callTool\<close>
  request for an existing image is the error reply of code -32000, not a result
  flagged \<^verbatim>\<open>isError\<close>; and when the text file cannot be created the result is not
  flagged \<^verbatim>\<open>isError\<close>.
\<close>

theorem C1_protocol_error_counterexample:
  "map reply_code (fst (handleCallTool demo_rt_exit7 demo_st (Some (JNum 7)) page_call))
     = [Some (- 32000)]
   \<and> map reply_isError (fst (handleCallTool demo_rt_exit7 demo_st (Some (JNum 7)) page_call))
     \<noteq> [Some True]
   \<and> map reply_isError (fst (handleCallTool demo_rt_readonly demo_st (Some (JNum 7)) page_call))
     = [Some False]"
  by (simp add: demo_exit7_reply demo_readonly_reply)

lemma demo_resolve: "path_resolve demo_rt p = p" "path_resolve demo_rt_exit7 p = p"
  "path_resolve demo_rt_payload p = p" "path_resolve demo_rt_readonly p = p"
  by (simp_all add: demo_rt_defs)

lemma demo_ext:
  "toLowerCase (path_extname demo_rt ''/img/notes.doc'') = ''.doc''"
  "toLowerCase (path_extname demo_rt ''/img/locked.png'') = ''.png''"
  "toLowerCase (path_extname demo_rt_exit7 ''/img/page.png'') = ''.png''"
  "toLowerCase (path_extname demo_rt_payload ''/img/page.png'') = ''.png''"
  "toLowerCase (path_extname demo_rt_readonly ''/img/page.png'') = ''.png''"
  by (simp_all add: demo_rt_defs demo_path_defs toLowerCase_def lower_char_def)

lemma demo_files:
  "fs demo_st ''/img/missing.png'' = None"
  "fs demo_st ''/img'' = Some Dir"
  "fs demo_st ''/img/big.png'' = Some (File (replicate 5242881 (CHR ''a'')) True True)"
  "fs demo_st ''/img/notes.doc'' = Some (File ''abc'' True True)"
  "fs demo_st ''/img/locked.png'' = Some (File ''abc'' False True)"
  "fs demo_st ''/img/page.png'' = Some (File ''abc'' True True)"
  by (simp_all add: demo_st_def demo_fs_def)

theorem C1_failure_replies_witness:
  "run_extract demo_rt demo_st (Some (JNum 7)) (image_args ''/img/missing.png'') =
     ([Success (Some (JNum 7)) (ToolResult
         \<lparr>content = [''Error: File access error: File not found at path: /img/missing.png''],
          isError = True\<rparr>)], demo_st)
   \<and> run_extract demo_rt demo_st (Some (JNum 7)) (image_args ''/img'') =
     ([Success (Some (JNum 7)) (ToolResult
         \<lparr>content = [''Error: File stats error: Not a file: /img''], isError = True\<rparr>)], demo_st)
   \<and> run_extract demo_rt demo_st (Some (JNum 7)) (image_args ''/img/big.png'') =
     ([Success (Some (JNum 7)) (ToolResult
         \<lparr>content = [''Error: File stats error: File too large: 5.00MB (max: 5MB)''],
          isError = True\<rparr>)], demo_st)
   \<and> run_extract demo_rt demo_st (Some (JNum 7)) (image_args ''/img/notes.doc'') =
     ([Success (Some (JNum 7)) (ToolResult
         \<lparr>content = [''Error: Invalid file type: .doc. Allowed types: .jpg, .jpeg, .png, .gif, .webp''],
          isError = True\<rparr>)], demo_st)
   \<and> run_extract demo_rt demo_st (Some (JNum 7)) (image_args ''/img/locked.png'') =
     ([Success (Some (JNum 7)) (ToolResult
         \<lparr>content = [''Error: File read error: EACCES''], isError = True\<rparr>)], demo_st)
   \<and> fst (run_extract demo_rt_exit7 demo_st (Some (JNum 7)) (image_args ''/img/page.png'')) =
     [Failure (JNum 7) (- 32000)
        ''Error executing tool: curl process exited with code 7: Failed to connect'']
   \<and> fst (run_extract demo_rt_payload demo_st (Some (JNum 7)) (image_args ''/img/page.png'')) =
     [Failure (JNum 7) (- 32000)
        ''Error executing tool: OpenAI API error: Incorrect API key provided'']
   \<and> fst (run_extract demo_rt_readonly demo_st (Some (JNum 7)) (image_args ''/img/page.png'')) =
     [Success (Some (JNum 7)) (ToolResult
        \<lparr>content = [''Page 11882'',
                    [CHR 10, CHR 10] @ ''Warning: Failed to save text file: Failed to save text file: ENOENT''],
         isError = False\<rparr>)]
   \<and> handleCallTool demo_rt demo_st (Some (JNum 7)) page_call =
       run_extract demo_rt demo_st (Some (JNum 7)) (image_args ''/img/page.png'')
   \<and> handleToolsCall demo_rt demo_st (Some (JNum 7)) (Some (JStr ''/img/page.png'')) =
       run_extract demo_rt demo_st (Some (JNum 7)) (image_args ''/img/page.png'')"
proof -
  note k = demo_key_state demo_key_ok
  have ne: "\<And>p. p \<noteq> [] \<Longrightarrow> p \<noteq> []" by simp
  have small: "length ''abc'' \<le> 5 * 1024 * 1024" by simp
  have w1: "run_extract demo_rt demo_st (Some (JNum 7)) (image_args ''/img/missing.png'') =
     ([Success (Some (JNum 7)) (ToolResult
         \<lparr>content = [''Error: File access error: File not found at path: /img/missing.png''],
          isError = True\<rparr>)], demo_st)"
    using C1_failure_replies [where rt = demo_rt and st = demo_st and i = "Some (JNum 7)"
        and ip = "''/img/missing.png''" and P = "''/img/missing.png''",
        OF k image_args_prop list.distinct(2) demo_resolve(1) [symmetric] refl, THEN conjunct1, THEN mp, OF demo_files(1)]
    by (simp add: demo_resolve)
  have w2: "run_extract demo_rt demo_st (Some (JNum 7)) (image_args ''/img'') =
     ([Success (Some (JNum 7)) (ToolResult
         \<lparr>content = [''Error: File stats error: Not a file: /img''], isError = True\<rparr>)], demo_st)"
    using C1_failure_replies [where rt = demo_rt and st = demo_st and i = "Some (JNum 7)"
        and ip = "''/img''" and P = "''/img''",
        OF k image_args_prop list.distinct(2) demo_resolve(1) [symmetric] refl, THEN conjunct2, THEN conjunct1, THEN mp, OF demo_files(2)]
    by (simp add: demo_resolve)
  have h3: "fs demo_st ''/img/big.png'' = Some (File (replicate 5242881 (CHR ''a'')) True True)
       \<and> length (replicate 5242881 (CHR ''a'')) > 5 * 1024 * 1024"
    by (simp add: demo_files)
  have w3: "run_extract demo_rt demo_st (Some (JNum 7)) (image_args ''/img/big.png'') =
     ([Success (Some (JNum 7)) (ToolResult
         \<lparr>content = [''Error: File stats error: File too large: 5.00MB (max: 5MB)''],
          isError = True\<rparr>)], demo_st)"
    using C1_failure_replies [where rt = demo_rt and st = demo_st and i = "Some (JNum 7)"
        and ip = "''/img/big.png''" and P = "''/img/big.png''",
        OF k image_args_prop list.distinct(2) demo_resolve(1) [symmetric] refl, THEN conjunct2, THEN conjunct2, THEN conjunct1, THEN mp, OF h3]
    by (simp add: demo_resolve) (simp add: demo_rt_def)
  have h4: "fs demo_st ''/img/notes.doc'' = Some (File ''abc'' True True)
       \<and> length ''abc'' \<le> 5 * 1024 * 1024
       \<and> toLowerCase (path_extname demo_rt ''/img/notes.doc'')
           \<notin> {''.jpg'', ''.jpeg'', ''.png'', ''.gif'', ''.webp''}"
    by (simp add: demo_files demo_ext)
  have w4: "run_extract demo_rt demo_st (Some (JNum 7)) (image_args ''/img/notes.doc'') =
     ([Success (Some (JNum 7)) (ToolResult
         \<lparr>content = [''Error: Invalid file type: .doc. Allowed types: .jpg, .jpeg, .png, .gif, .webp''],
          isError = True\<rparr>)], demo_st)"
    using C1_failure_replies [where rt = demo_rt and st = demo_st and i = "Some (JNum 7)"
        and ip = "''/img/notes.doc''" and P = "''/img/notes.doc''",
        OF k image_args_prop list.distinct(2) demo_resolve(1) [symmetric] refl, THEN conjunct2, THEN conjunct2, THEN conjunct2,
        THEN conjunct1, THEN mp, OF h4]
    by (simp add: demo_resolve demo_ext)
  have h5: "fs demo_st ''/img/locked.png'' = Some (File ''abc'' False True)
       \<and> length ''abc'' \<le> 5 * 1024 * 1024
       \<and> toLowerCase (path_extname demo_rt ''/img/locked.png'')
           \<in> {''.jpg'', ''.jpeg'', ''.png'', ''.gif'', ''.webp''}"
    by (simp add: demo_files demo_ext)
  have w5: "run_extract demo_rt demo_st (Some (JNum 7)) (image_args ''/img/locked.png'') =
     ([Success (Some (JNum 7)) (ToolResult
         \<lparr>content = [''Error: File read error: EACCES''], isError = True\<rparr>)], demo_st)"
    using C1_failure_replies [where rt = demo_rt and st = demo_st and i = "Some (JNum 7)"
        and ip = "''/img/locked.png''" and P = "''/img/locked.png''",
        OF k image_args_prop list.distinct(2) demo_resolve(1) [symmetric] refl, THEN conjunct2, THEN conjunct2, THEN conjunct2,
        THEN conjunct2, THEN conjunct1, THEN mp, OF h5]
    by (simp add: demo_resolve) (simp add: demo_rt_def)
  have h6: "\<And>rt. toLowerCase (path_extname rt ''/img/page.png'') = ''.png'' \<Longrightarrow>
       fs demo_st ''/img/page.png'' = Some (File ''abc'' True True)
       \<and> length ''abc'' \<le> 5 * 1024 * 1024
       \<and> toLowerCase (path_extname rt ''/img/page.png'')
           \<in> {''.jpg'', ''.jpeg'', ''.png'', ''.gif'', ''.webp''}"
    by (simp add: demo_files)
  have x7: "exit_code \<lparr>exit_code = Some 7, responseData = [], errorOutput = ''Failed to connect''\<rparr> \<noteq> Some 0"
    by simp
  have w6: "fst (run_extract demo_rt_exit7 demo_st (Some (JNum 7)) (image_args ''/img/page.png'')) =
     [Failure (JNum 7) (- 32000)
        ''Error executing tool: curl process exited with code 7: Failed to connect'']"
    using C1_failure_replies [where rt = demo_rt_exit7 and st = demo_st and i = "Some (JNum 7)"
        and ip = "''/img/page.png''" and P = "''/img/page.png''" and bytes = "''abc''"
        and res = "\<lparr>exit_code = Some 7, responseData = [], errorOutput = ''Failed to connect''\<rparr>",
        OF demo_key_state demo_keys_ok(1) image_args_prop list.distinct(2) demo_resolve(2) [symmetric] demo_exit7 [symmetric],
        THEN conjunct2, THEN conjunct2, THEN conjunct2,
        THEN conjunct2, THEN conjunct2, THEN conjunct1, THEN mp, OF h6 [OF demo_ext(3)],
        THEN conjunct1, THEN mp, OF x7]
    by (simp add: demo_resolve exit_code_value_def) (simp add: demo_rt_defs)
  have x8: "exit_code (curl_ok payload_line) = Some 0
     \<and> JSON_parse demo_rt_payload (responseData (curl_ok payload_line))
         = Inr (JObj [(''error'', JObj [(''message'', JStr ''Incorrect API key provided'')])])
     \<and> JObj [(''error'', JObj [(''message'', JStr ''Incorrect API key provided'')])] \<noteq> JNull
     \<and> truthy (js_member (JObj [(''error'', JObj [(''message'', JStr ''Incorrect API key provided'')])]) ''error'')"
    by (simp add: curl_ok_def demo_payload)
  have w7: "fst (run_extract demo_rt_payload demo_st (Some (JNum 7)) (image_args ''/img/page.png'')) =
     [Failure (JNum 7) (- 32000)
        ''Error executing tool: OpenAI API error: Incorrect API key provided'']"
    using C1_failure_replies [where rt = demo_rt_payload and st = demo_st and i = "Some (JNum 7)"
        and ip = "''/img/page.png''" and P = "''/img/page.png''" and bytes = "''abc''"
        and res = "curl_ok payload_line",
        OF demo_key_state demo_keys_ok(2) image_args_prop list.distinct(2) demo_resolve(3) [symmetric] demo_payload(1) [symmetric],
        THEN conjunct2, THEN conjunct2, THEN conjunct2,
        THEN conjunct2, THEN conjunct2, THEN conjunct1, THEN mp, OF h6 [OF demo_ext(4)],
        THEN conjunct2, THEN conjunct2, THEN conjunct1, THEN mp, OF x8]
    by (simp add: demo_resolve template_def)
  have x9: "exit_code (curl_ok page_line) = Some 0
     \<and> read_completion demo_rt_readonly (responseData (curl_ok page_line)) = Inr ''Page 11882''
     \<and> writeFileSync demo_rt_readonly (fs demo_st)
          (txtPath_of demo_rt_readonly ''/img/page.png'' (fst (split_response ''Page 11882'')))
          (ocr_section (fst (split_response ''Page 11882''))) = Inl ''ENOENT''"
    by (simp add: curl_ok_def demo_readonly split_page demo_readonly_write)
  have w8: "fst (run_extract demo_rt_readonly demo_st (Some (JNum 7)) (image_args ''/img/page.png'')) =
     [Success (Some (JNum 7)) (ToolResult
        \<lparr>content = [''Page 11882'',
                    [CHR 10, CHR 10] @ ''Warning: Failed to save text file: Failed to save text file: ENOENT''],
         isError = False\<rparr>)]"
    using C1_failure_replies [where rt = demo_rt_readonly and st = demo_st and i = "Some (JNum 7)"
        and ip = "''/img/page.png''" and P = "''/img/page.png''" and bytes = "''abc''"
        and res = "curl_ok page_line",
        OF demo_key_state demo_keys_ok(3) image_args_prop list.distinct(2) demo_resolve(4) [symmetric] demo_readonly(1) [symmetric],
        THEN conjunct2, THEN conjunct2, THEN conjunct2,
        THEN conjunct2, THEN conjunct2, THEN conjunct1, THEN mp, OF h6 [OF demo_ext(5)],
        THEN conjunct2, THEN conjunct2, THEN conjunct2, THEN mp, OF x9]
    by (simp add: demo_resolve split_page)
  have p7: "truthy page_call \<and> opt_prop page_call ''name'' = Some (JStr ''extract_text_from_image'')"
    by (simp add: page_call_props)
  have w9: "handleCallTool demo_rt demo_st (Some (JNum 7)) page_call =
       run_extract demo_rt demo_st (Some (JNum 7)) (image_args ''/img/page.png'')"
    using C1_failure_replies [where rt = demo_rt and st = demo_st and i = "Some (JNum 7)"
        and ip = "''/img/page.png''" and P = "''/img/page.png''" and params = page_call,
        OF k image_args_prop list.distinct(2) demo_resolve(1) [symmetric] refl, THEN conjunct2, THEN conjunct2, THEN conjunct2,
        THEN conjunct2, THEN conjunct2, THEN conjunct2, THEN conjunct1, THEN mp, OF p7]
    by (simp add: demo_resolve page_call_props)
  have s8: "''/img/page.png'' \<noteq> []" by simp
  have w10: "handleToolsCall demo_rt demo_st (Some (JNum 7)) (Some (JStr ''/img/page.png'')) =
       run_extract demo_rt demo_st (Some (JNum 7)) (image_args ''/img/page.png'')"
    using C1_failure_replies [where rt = demo_rt and st = demo_st and i = "Some (JNum 7)"
        and ip = "''/img/page.png''" and P = "''/img/page.png''" and s = "''/img/page.png''",
        OF k image_args_prop list.distinct(2) demo_resolve(1) [symmetric] refl, THEN conjunct2, THEN conjunct2, THEN conjunct2,
        THEN conjunct2, THEN conjunct2, THEN conjunct2, THEN conjunct2, THEN mp, OF s8]
    by (simp add: demo_resolve image_args_def)
  show ?thesis
    by (intro conjI w1 w2 w3 w4 w5 w6 w7 w8 w9 w10)
qed

section \<open>An extraction with an analysis, end to end\<close>

text \<open>
  A completion that carries a heading after a blank line leaves one file behind: the
  extracted text in its section, followed by the analysis section that the close handler
  appends through the append\_analysis handler.
\<close>

lemma demo_summary_completion:
  "curl demo_rt_summary demo_key (requestBody demo_rt_summary ''/img/page.png'' ''abc'') = curl_ok summary_line"
  "read_completion demo_rt_summary summary_line = Inr (''Hi'' @ [CHR 10, CHR 10] @ ''Summary: ok'')"
  by (simp_all add: demo_rt_defs demo_line_defs read_completion_def completion_of_def)

lemma split_summary:
  "split_response (''Hi'' @ [CHR 10, CHR 10] @ ''Summary: ok'') = (''Hi'', ''Summary: ok'')"
  using split_response_first [OF demo_sep demo_nosep] by simp

lemma demo_summary_roundtrip:
  "fs (snd (extractTextFromImage demo_rt_summary demo_st (image_args ''/img/page.png'')))
      (''/img/page-'' @ generateShortHash ''Hi'' @ ''.txt'')
   = Some (File (ocr_section ''Hi'' @ analysis_section ''2025-01-01T00:00:00.000Z'' ''Summary: ok'')
             True True)"
proof -
  let ?rt = demo_rt_summary
  let ?p = "''/img/page-'' @ generateShortHash ''Hi'' @ ''.txt''"
  let ?st = "demo_st\<lparr>curl_calls := curl_calls demo_st @ [requestBody ?rt ''/img/page.png'' ''abc'']\<rparr>"
  have k: "isValid (validateApiKey ?rt demo_key)"
    by (simp add: validateApiKey_def demo_rt_defs demo_key_def Let_def)
  have v: "validate_image ?rt (fs demo_st) (image_args ''/img/page.png'') = Inr (''/img/page.png'', ''abc'')"
    by (rule demo_page_valid) (simp_all add: demo_rt_defs demo_path_defs)
  have x: "exit_code (curl_ok summary_line) = Some 0" "responseData (curl_ok summary_line) = summary_line"
    by (simp_all add: curl_ok_def)
  have r: "read_completion ?rt (responseData (curl_ok summary_line)) = Inr (''Hi'' @ [CHR 10, CHR 10] @ ''Summary: ok'')"
    by (simp add: x demo_summary_completion)
  have tp: "txtPath_of ?rt ''/img/page.png'' ''Hi'' = ?p"
    by (simp add: txtPath_of_def demo_rt_defs demo_path_defs suffix_to_prefix)
  have w: "writeFileSync ?rt (fs ?st)
             (txtPath_of ?rt ''/img/page.png'' (fst (split_response (''Hi'' @ [CHR 10, CHR 10] @ ''Summary: ok''))))
             (ocr_section (fst (split_response (''Hi'' @ [CHR 10, CHR 10] @ ''Summary: ok'')))) =
           Inr ((fs demo_st)(?p \<mapsto> File (ocr_section ''Hi'') True True))"
    unfolding split_summary fst_conv tp
    by (simp add: writeFileSync_def demo_st_def demo_fs_def demo_rt_defs)
  have e: "extractTextFromImage ?rt demo_st (image_args ''/img/page.png'') =
      on_close ?rt ?st ''/img/page.png'' (curl_ok summary_line)"
    unfolding extract_reaches_curl [OF demo_key_state k v]
    by (simp add: demo_summary_completion)
  have sfx: "suffix ''.txt'' ?p" by (simp add: suffix_def)
  have iso: "toISOString ?rt (clock demo_st) = ''2025-01-01T00:00:00.000Z''"
    by (simp add: demo_rt_defs demo_st_def)
  note ss = split_summary [simplified]
  let ?st2 = "?st\<lparr>lastOcrResult := Some ''Hi'', lastImagePath := Some (JStr ''/img/page.png''),
                 fs := (fs demo_st)(?p \<mapsto> File (ocr_section ''Hi'') True True)\<rparr>"
  have f2: "fs ?st2 ?p = Some (File (ocr_section ''Hi'') True True)" by simp
  have c2: "clock ?st2 = clock demo_st" by simp
  have ap: "fs (snd (handleAppendAnalysis ?rt ?st2 (append_args ?p ''Summary: ok''))) ?p =
     Some (File (ocr_section ''Hi'' @ analysis_section ''2025-01-01T00:00:00.000Z'' ''Summary: ok'') True True)"
    unfolding append_ok [OF f2 sfx] using iso by (simp add: c2)
  have oc: "snd (on_close ?rt ?st ''/img/page.png'' (curl_ok summary_line)) =
      snd (handleAppendAnalysis ?rt ?st2 (append_args ?p ''Summary: ok''))"
    unfolding on_close_saved [OF x(1) r w] by (simp add: ss tp Let_def)
  show ?thesis
    unfolding e oc by (rule ap)
qed

section \<open>Analysis notifications\<close>










lemma sorted_demo: "sorted [''scan-a.txt'', ''scan-b.txt'', ''scan.jpg'']"
  by simp







section \<open>The correlation state\<close>

lemma run_extract_last:
  assumes "run_extract rt st i args = (out, st')"
  shows "(lastOcrResult st' = lastOcrResult st \<and> lastImagePath st' = lastImagePath st)
     \<or> (\<exists>r ip. out = [Success i (ToolResult r)] \<and> \<not> isError r
           \<and> lastOcrResult st' = Some (hd (content r))
           \<and> opt_prop args ''image_path'' = Some (JStr ip)
           \<and> lastImagePath st' = Some (JStr (path_resolve rt ip)))"
proof (cases "extractTextFromImage rt st args")
  case (Pair res s1)
  show ?thesis
  proof (cases res)
    case (Resolved r)
    with Pair assms have o: "out = [Success i (ToolResult r)]" "st' = s1"
      by (simp_all add: run_extract_def sendResponse_def)
    from extract_last [OF Pair] Resolved
    show ?thesis using o by (cases "isError r") auto
  next
    case (Rejected m)
    with Pair assms have o: "st' = s1" by (simp add: run_extract_def)
    from extract_last [OF Pair] Rejected show ?thesis using o by simp
  qed
qed

lemma handleCallTool_last:
  assumes "handleCallTool rt st i params = (out, st')"
  shows "(lastOcrResult st' = lastOcrResult st \<and> lastImagePath st' = lastImagePath st)
     \<or> (\<exists>r ip. out = [Success i (ToolResult r)] \<and> \<not> isError r
           \<and> lastOcrResult st' = Some (hd (content r))
           \<and> lastImagePath st' = Some (JStr (path_resolve rt ip)))"
proof (cases "truthy params")
  case False
  with assms show ?thesis by (simp add: handleCallTool_def)
next
  case True
  show ?thesis
  proof (cases "opt_prop params ''name'' = Some (JStr OCR_TOOL_name)")
    case o: True
    with True assms have "run_extract rt st i (opt_prop params ''arguments'') = (out, st')"
      by (simp add: handleCallTool_def Let_def)
    from run_extract_last [OF this] show ?thesis by blast
  next
    case o: False
    show ?thesis
    proof (cases "opt_prop params ''name'' = Some (JStr APPEND_ANALYSIS_TOOL_name)")
      case a: True
      with True o assms have "st' = snd (handleAppendAnalysis rt st (opt_prop params ''arguments''))"
        by (auto simp: handleCallTool_def Let_def split: prod.splits)
      then show ?thesis by (simp add: append_keeps)
    next
      case a: False
      with True o assms show ?thesis by (simp add: handleCallTool_def Let_def)
    qed
  qed
qed

lemma handleToolsCall_last:
  assumes "handleToolsCall rt st i params = (out, st')"
  shows "(lastOcrResult st' = lastOcrResult st \<and> lastImagePath st' = lastImagePath st)
     \<or> (\<exists>r ip. out = [Success i (ToolResult r)] \<and> \<not> isError r
           \<and> lastOcrResult st' = Some (hd (content r))
           \<and> lastImagePath st' = Some (JStr (path_resolve rt ip)))"
proof (cases "resolve_tool_call params")
  case (Pair toolName imagePath)
  show ?thesis
  proof (cases "truthy params \<and> truthy toolName \<and> truthy imagePath \<and> toolName = Some (JStr OCR_TOOL_name)")
    case True
    with Pair assms have "run_extract rt st i (Some (JObj [(''image_path'', the imagePath)])) = (out, st')"
      by (simp add: handleToolsCall_def OCR_TOOL_name_def)
    from run_extract_last [OF this] show ?thesis by blast
  next
    case False
    with Pair assms have "st' = st"
      by (auto simp: handleToolsCall_def split: if_splits)
    then show ?thesis by simp
  qed
qed

lemma on_line_callTool:
  "JSON_parse rt line = Inr request \<Longrightarrow> request \<noteq> JNull \<Longrightarrow>
   js_member request ''method'' = Some (JStr ''callTool'') \<Longrightarrow>
   on_line rt st line =
     handleCallTool rt
       (if truthy (opt_prop (opt_prop (js_member request ''params'') ''arguments'') ''image_path'')
        then st\<lparr>lastImagePath := opt_prop (opt_prop (js_member request ''params'') ''arguments'') ''image_path''\<rparr>
        else st)
       (js_member request ''id'') (js_member request ''params'')"
  by (simp add: on_line_def Let_def)

lemma on_line_tools_call:
  "JSON_parse rt line = Inr request \<Longrightarrow> request \<noteq> JNull \<Longrightarrow>
   js_member request ''method'' = Some (JStr ''tools/call'') \<Longrightarrow>
   on_line rt st line =
     handleToolsCall rt
       (if truthy (opt_prop (js_member request ''params'') ''image_path'')
        then st\<lparr>lastImagePath := opt_prop (js_member request ''params'') ''image_path''\<rparr>
        else st)
       (js_member request ''id'') (js_member request ''params'')"
  by (simp add: on_line_def Let_def)

text \<open>
  Claim C8, as the code has it.
  \<^item> Inside the tool: a call that resolves without \<^verbatim>\<open>isError\<close> has set \<^verbatim>\<open>lastOcrResult\<close> to
    the extracted text (the first content block) and \<^verbatim>\<open>lastImagePath\<close> to the resolved
    image path; a call that resolves with \<^verbatim>\<open>isError\<close> or is rejected leaves both as they
    were.
  \<^item> In the dispatcher: before a \<^verbatim>\<open>callTool\<close> request is handled, a truthy
    \<^verbatim>\<open>params.arguments.image_path\<close> is stored in \<^verbatim>\<open>lastImagePath\<close>, and before a
    \<^verbatim>\<open>tools/call\<close> request a truthy \<^verbatim>\<open>params.image_path\<close>, as the request gives it.
  \<^item> Each call handler either leaves both fields as it found them (so, after the
    dispatcher's store) or replies with a result without \<^verbatim>\<open>isError\<close> and has set both.
\<close>

theorem C8_correlation_state:
  "(extractTextFromImage rt st args = (out, st') \<longrightarrow>
      (case out of
         Resolved r \<Rightarrow>
           if isError r
           then lastOcrResult st' = lastOcrResult st \<and> lastImagePath st' = lastImagePath st
           else lastOcrResult st' = Some (hd (content r))
                \<and> (\<exists>ip. opt_prop args ''image_path'' = Some (JStr ip)
                      \<and> lastImagePath st' = Some (JStr (path_resolve rt ip)))
       | Rejected m \<Rightarrow>
           lastOcrResult st' = lastOcrResult st \<and> lastImagePath st' = lastImagePath st))
   \<and> (JSON_parse rt line = Inr request \<and> request \<noteq> JNull
       \<and> js_member request ''method'' = Some (JStr ''callTool'') \<longrightarrow>
        on_line rt st line =
          handleCallTool rt
            (if truthy (opt_prop (opt_prop (js_member request ''params'') ''arguments'') ''image_path'')
             then st\<lparr>lastImagePath :=
                       opt_prop (opt_prop (js_member request ''params'') ''arguments'') ''image_path''\<rparr>
             else st)
            (js_member request ''id'') (js_member request ''params''))
   \<and> (JSON_parse rt line = Inr request \<and> request \<noteq> JNull
       \<and> js_member request ''method'' = Some (JStr ''tools/call'') \<longrightarrow>
        on_line rt st line =
          handleToolsCall rt
            (if truthy (opt_prop (js_member request ''params'') ''image_path'')
             then st\<lparr>lastImagePath := opt_prop (js_member request ''params'') ''image_path''\<rparr>
             else st)
            (js_member request ''id'') (js_member request ''params''))
   \<and> (handleCallTool rt sa i params = (outa, sb) \<longrightarrow>
        (lastOcrResult sb = lastOcrResult sa \<and> lastImagePath sb = lastImagePath sa)
        \<or> (\<exists>r ip. outa = [Success i (ToolResult r)] \<and> \<not> isError r
              \<and> lastOcrResult sb = Some (hd (content r))
              \<and> lastImagePath sb = Some (JStr (path_resolve rt ip))))
   \<and> (handleToolsCall rt sa i params = (outb, sc) \<longrightarrow>
        (lastOcrResult sc = lastOcrResult sa \<and> lastImagePath sc = lastImagePath sa)
        \<or> (\<exists>r ip. outb = [Success i (ToolResult r)] \<and> \<not> isError r
              \<and> lastOcrResult sc = Some (hd (content r))
              \<and> lastImagePath sc = Some (JStr (path_resolve rt ip))))"
proof (intro conjI impI)
  assume "extractTextFromImage rt st args = (out, st')"
  then show "case out of
         Resolved r \<Rightarrow>
           if isError r
           then lastOcrResult st' = lastOcrResult st \<and> lastImagePath st' = lastImagePath st
           else lastOcrResult st' = Some (hd (content r))
                \<and> (\<exists>ip. opt_prop args ''image_path'' = Some (JStr ip)
                      \<and> lastImagePath st' = Some (JStr (path_resolve rt ip)))
       | Rejected m \<Rightarrow>
           lastOcrResult st' = lastOcrResult st \<and> lastImagePath st' = lastImagePath st"
    by (rule extract_last)
next
  assume "JSON_parse rt line = Inr request \<and> request \<noteq> JNull
       \<and> js_member request ''method'' = Some (JStr ''callTool'')"
  then show "on_line rt st line =
          handleCallTool rt
            (if truthy (opt_prop (opt_prop (js_member request ''params'') ''arguments'') ''image_path'')
             then st\<lparr>lastImagePath :=
                       opt_prop (opt_prop (js_member request ''params'') ''arguments'') ''image_path''\<rparr>
             else st)
            (js_member request ''id'') (js_member request ''params'')"
    by (simp add: on_line_callTool)
next
  assume "JSON_parse rt line = Inr request \<and> request \<noteq> JNull
       \<and> js_member request ''method'' = Some (JStr ''tools/call'')"
  then show "on_line rt st line =
          handleToolsCall rt
            (if truthy (opt_prop (js_member request ''params'') ''image_path'')
             then st\<lparr>lastImagePath := opt_prop (js_member request ''params'') ''image_path''\<rparr>
             else st)
            (js_member request ''id'') (js_member request ''params'')"
    by (simp add: on_line_tools_call)
next
  assume "handleCallTool rt sa i params = (outa, sb)"
  then show "(lastOcrResult sb = lastOcrResult sa \<and> lastImagePath sb = lastImagePath sa)
        \<or> (\<exists>r ip. outa = [Success i (ToolResult r)] \<and> \<not> isError r
              \<and> lastOcrResult sb = Some (hd (content r))
              \<and> lastImagePath sb = Some (JStr (path_resolve rt ip)))"
    by (rule handleCallTool_last)
next
  assume "handleToolsCall rt sa i params = (outb, sc)"
  then show "(lastOcrResult sc = lastOcrResult sa \<and> lastImagePath sc = lastImagePath sa)
        \<or> (\<exists>r ip. outb = [Success i (ToolResult r)] \<and> \<not> isError r
              \<and> lastOcrResult sc = Some (hd (content r))
              \<and> lastImagePath sc = Some (JStr (path_resolve rt ip)))"
    by (rule handleToolsCall_last)
qed

lemma demo_parse_call: "JSON_parse demo_rt call_line = Inr call_request"
  by (simp add: demo_rt_def demo_line_defs)

lemma call_request_props:
  "call_request \<noteq> JNull" "js_member call_request ''method'' = Some (JStr ''callTool'')"
  "js_member call_request ''id'' = Some (JNum 7)"
  "opt_prop (js_member call_request ''params'') ''name'' = Some (JStr ''extract_text_from_image'')"
  "opt_prop (js_member call_request ''params'') ''arguments'' = image_args ''/img/missing.png''"
  "truthy (js_member call_request ''params'')"
  by (simp_all add: call_request_def image_args_def)

lemma demo_call_line:
  "on_line demo_rt demo_st call_line =
     ([Success (Some (JNum 7)) (ToolResult
         \<lparr>content = [''Error: File access error: File not found at path: /img/missing.png''],
          isError = True\<rparr>)],
      demo_st\<lparr>lastImagePath := Some (JStr ''/img/missing.png'')\<rparr>)"
proof -
  let ?st = "demo_st\<lparr>lastImagePath := Some (JStr ''/img/missing.png'')\<rparr>"
  have k: "OPENAI_API_KEY ?st = Some demo_key" by (simp add: demo_key_state)
  have f: "fs ?st (path_resolve demo_rt ''/img/missing.png'') = None"
    by (simp add: demo_resolve demo_files)
  have v: "validate_image demo_rt (fs ?st) (image_args ''/img/missing.png'') =
     Inl (''File access error: File not found at path: '' @ path_resolve demo_rt ''/img/missing.png'')"
    by (rule validate_not_found [where files = "fs ?st", OF image_args_prop list.distinct(2) f])
  have r: "run_extract demo_rt ?st (Some (JNum 7)) (image_args ''/img/missing.png'') =
     ([Success (Some (JNum 7)) (ToolResult
         \<lparr>content = [''Error: File access error: File not found at path: /img/missing.png''],
          isError = True\<rparr>)], ?st)"
    using run_extract_soft [OF k demo_key_state(2) demo_key_ok v] by (simp add: demo_resolve)
  show ?thesis
    using on_line_callTool [OF demo_parse_call call_request_props(1,2), of demo_st]
    by (simp add: call_request_props handleCallTool_extract r image_args_prop)
qed

text \<open>
  Claim C8 as stated fails: a \<^verbatim>\<open>callTool\<close> request for a file that does not exist is
  answered with an \<^verbatim>\<open>isError\<close> result, and \<^verbatim>\<open>lastImagePath\<close>, unset before, holds the
  requested path afterwards.
\<close>

theorem C8_failed_request_counterexample:
  "map reply_isError (fst (on_line demo_rt demo_st call_line)) = [Some True]
   \<and> lastImagePath demo_st = None
   \<and> lastImagePath (snd (on_line demo_rt demo_st call_line)) = Some (JStr ''/img/missing.png'')
   \<and> lastImagePath (snd (on_line demo_rt demo_st call_line)) \<noteq> lastImagePath demo_st"
  by (simp add: demo_call_line) (simp add: demo_st_def)

lemma demo_page_write:
  "writeFileSync demo_rt (fs demo_st) (txtPath_of demo_rt ''/img/page.png'' ''Page 11882'')
     (ocr_section ''Page 11882'') =
   Inr ((fs demo_st)(''/img/page-'' @ generateShortHash ''Page 11882'' @ ''.txt''
          \<mapsto> File (ocr_section ''Page 11882'') True True))"
  by (simp add: writeFileSync_def txtPath_of_def demo_rt_def demo_path_defs
        suffix_to_prefix demo_st_def demo_fs_def)

lemma demo_page_completion:
  "curl demo_rt demo_key (requestBody demo_rt ''/img/page.png'' ''abc'') = curl_ok page_line"
  "read_completion demo_rt page_line = Inr ''Page 11882''"
  by (simp_all add: demo_rt_def demo_line_defs read_completion_def completion_of_def)

lemma demo_page_success:
  "extractTextFromImage demo_rt demo_st (image_args ''/img/page.png'') =
     (Resolved \<lparr>content = [''Page 11882'',
                  [CHR 10, CHR 10] @ ''Text has been saved to: '' @ txtPath_of demo_rt ''/img/page.png'' ''Page 11882''],
                 isError = False\<rparr>,
      demo_st\<lparr>curl_calls := curl_calls demo_st @ [requestBody demo_rt ''/img/page.png'' ''abc''],
              lastOcrResult := Some ''Page 11882'',
              lastImagePath := Some (JStr ''/img/page.png''),
              fs := (fs demo_st)(''/img/page-'' @ generateShortHash ''Page 11882'' @ ''.txt''
                       \<mapsto> File (ocr_section ''Page 11882'') True True)\<rparr>)"
proof -
  let ?st = "demo_st\<lparr>curl_calls := curl_calls demo_st @ [requestBody demo_rt ''/img/page.png'' ''abc'']\<rparr>"
  have x: "exit_code (curl_ok page_line) = Some 0" "responseData (curl_ok page_line) = page_line"
    by (simp_all add: curl_ok_def)
  have r: "read_completion demo_rt (responseData (curl_ok page_line)) = Inr ''Page 11882''"
    by (simp add: x demo_page_completion)
  have w: "writeFileSync demo_rt (fs ?st)
             (txtPath_of demo_rt ''/img/page.png'' (fst (split_response ''Page 11882'')))
             (ocr_section (fst (split_response ''Page 11882''))) =
           Inr ((fs demo_st)(''/img/page-'' @ generateShortHash ''Page 11882'' @ ''.txt''
                  \<mapsto> File (ocr_section ''Page 11882'') True True))"
    by (simp add: split_page demo_page_write)
  have e: "extractTextFromImage demo_rt demo_st (image_args ''/img/page.png'') =
      on_close demo_rt ?st ''/img/page.png'' (curl_ok page_line)"
    unfolding extract_reaches_curl [OF demo_key_state demo_key_ok demo_page_valid_variants(1)]
    by (simp add: demo_page_completion)
  show ?thesis
    unfolding e on_close_saved [OF x(1) r w] by (simp add: split_page)
qed

lemma demo_parse_tools: "JSON_parse demo_rt tools_line = Inr tools_request"
  by (simp add: demo_rt_def demo_line_defs)

lemma tools_request_props:
  "tools_request \<noteq> JNull" "js_member tools_request ''method'' = Some (JStr ''tools/call'')"
  "js_member tools_request ''id'' = Some (JNum 8)"
  "opt_prop (js_member tools_request ''params'') ''image_path'' = Some (JStr ''/img/missing.png'')"
  by (simp_all add: tools_request_def)

theorem C8_correlation_state_witness:
  "lastOcrResult (snd (extractTextFromImage demo_rt demo_st (image_args ''/img/page.png'')))
     = Some ''Page 11882''
   \<and> lastImagePath (snd (extractTextFromImage demo_rt demo_st (image_args ''/img/page.png'')))
     = Some (JStr ''/img/page.png'')
   \<and> JSON_parse demo_rt call_line = Inr call_request
   \<and> on_line demo_rt demo_st call_line =
       handleCallTool demo_rt (demo_st\<lparr>lastImagePath := Some (JStr ''/img/missing.png'')\<rparr>)
         (Some (JNum 7)) (js_member call_request ''params'')
   \<and> lastOcrResult (snd (on_line demo_rt demo_st call_line)) = None
   \<and> lastImagePath (snd (on_line demo_rt demo_st call_line)) = Some (JStr ''/img/missing.png'')
   \<and> JSON_parse demo_rt tools_line = Inr tools_request
   \<and> on_line demo_rt demo_st tools_line =
       handleToolsCall demo_rt (demo_st\<lparr>lastImagePath := Some (JStr ''/img/missing.png'')\<rparr>)
         (Some (JNum 8)) (js_member tools_request ''params'')
   \<and> lastOcrResult (snd (on_line demo_rt demo_st tools_line)) = None
   \<and> lastImagePath (snd (on_line demo_rt demo_st tools_line)) = Some (JStr ''/img/missing.png'')"
proof -
  let ?sb = "demo_st\<lparr>lastImagePath := Some (JStr ''/img/missing.png'')\<rparr>"
  note ok = C8_correlation_state [where rt = demo_rt and st = demo_st
      and args = "image_args ''/img/page.png''", THEN conjunct1, THEN mp, OF demo_page_success]
  have a: "lastOcrResult (snd (extractTextFromImage demo_rt demo_st (image_args ''/img/page.png'')))
     = Some ''Page 11882''
     \<and> lastImagePath (snd (extractTextFromImage demo_rt demo_st (image_args ''/img/page.png'')))
     = Some (JStr ''/img/page.png'')"
    using ok by (simp add: demo_page_success)
  have hc: "JSON_parse demo_rt call_line = Inr call_request \<and> call_request \<noteq> JNull
       \<and> js_member call_request ''method'' = Some (JStr ''callTool'')"
    by (simp add: demo_parse_call call_request_props)
  have b: "on_line demo_rt demo_st call_line =
       handleCallTool demo_rt ?sb (Some (JNum 7)) (js_member call_request ''params'')"
    using C8_correlation_state [where rt = demo_rt and st = demo_st and line = call_line
      and request = call_request, THEN conjunct2, THEN conjunct1, THEN mp, OF hc]
    by (simp add: call_request_props image_args_prop)
  have eqc: "handleCallTool demo_rt ?sb (Some (JNum 7)) (js_member call_request ''params'') =
      (fst (on_line demo_rt demo_st call_line), snd (on_line demo_rt demo_st call_line))"
    using b by simp
  have outc: "fst (on_line demo_rt demo_st call_line) =
     [Success (Some (JNum 7)) (ToolResult
         \<lparr>content = [''Error: File access error: File not found at path: /img/missing.png''],
          isError = True\<rparr>)]"
    by (simp add: demo_call_line)
  have "lastOcrResult (snd (on_line demo_rt demo_st call_line)) = lastOcrResult ?sb
     \<and> lastImagePath (snd (on_line demo_rt demo_st call_line)) = lastImagePath ?sb"
    using C8_correlation_state [where rt = demo_rt and sa = ?sb and i = "Some (JNum 7)"
      and params = "js_member call_request ''params''"
      and outa = "fst (on_line demo_rt demo_st call_line)"
      and sb = "snd (on_line demo_rt demo_st call_line)",
      THEN conjunct2, THEN conjunct2, THEN conjunct2, THEN conjunct1, THEN mp, OF eqc]
      outc
    by auto
  then have c: "lastOcrResult (snd (on_line demo_rt demo_st call_line)) = None
     \<and> lastImagePath (snd (on_line demo_rt demo_st call_line)) = Some (JStr ''/img/missing.png'')"
    by (simp add: demo_st_def)
  have ht: "JSON_parse demo_rt tools_line = Inr tools_request \<and> tools_request \<noteq> JNull
       \<and> js_member tools_request ''method'' = Some (JStr ''tools/call'')"
    by (simp add: demo_parse_tools tools_request_props)
  have d: "on_line demo_rt demo_st tools_line =
       handleToolsCall demo_rt ?sb (Some (JNum 8)) (js_member tools_request ''params'')"
    using C8_correlation_state [where rt = demo_rt and st = demo_st and line = tools_line
      and request = tools_request, THEN conjunct2, THEN conjunct2, THEN conjunct1, THEN mp, OF ht]
    by (simp add: tools_request_props)
  have k: "OPENAI_API_KEY ?sb = Some demo_key" by (simp add: demo_key_state)
  have f: "fs ?sb (path_resolve demo_rt ''/img/missing.png'') = None"
    by (simp add: demo_resolve demo_files)
  have v: "validate_image demo_rt (fs ?sb) (image_args ''/img/missing.png'') =
     Inl (''File access error: File not found at path: '' @ path_resolve demo_rt ''/img/missing.png'')"
    by (rule validate_not_found [where files = "fs ?sb", OF image_args_prop list.distinct(2) f])
  have tc: "handleToolsCall demo_rt ?sb (Some (JNum 8)) (js_member tools_request ''params'') =
     ([Success (Some (JNum 8)) (ToolResult
         \<lparr>content = [''Error: File access error: File not found at path: /img/missing.png''],
          isError = True\<rparr>)], ?sb)"
    using run_extract_soft [OF k demo_key_state(2) demo_key_ok v, of "Some (JNum 8)"]
    by (simp add: tools_request_def handleToolsCall_def resolve_tool_call_def OCR_TOOL_name_def
          image_args_def demo_resolve)
  have eqt: "handleToolsCall demo_rt ?sb (Some (JNum 8)) (js_member tools_request ''params'') =
      (fst (on_line demo_rt demo_st tools_line), snd (on_line demo_rt demo_st tools_line))"
    using d by simp
  have outt: "fst (on_line demo_rt demo_st tools_line) =
     [Success (Some (JNum 8)) (ToolResult
         \<lparr>content = [''Error: File access error: File not found at path: /img/missing.png''],
          isError = True\<rparr>)]"
    by (simp add: d tc)
  have "lastOcrResult (snd (on_line demo_rt demo_st tools_line)) = lastOcrResult ?sb
     \<and> lastImagePath (snd (on_line demo_rt demo_st tools_line)) = lastImagePath ?sb"
    using C8_correlation_state [where rt = demo_rt and sa = ?sb and i = "Some (JNum 8)"
      and params = "js_member tools_request ''params''"
      and outb = "fst (on_line demo_rt demo_st tools_line)"
      and sc = "snd (on_line demo_rt demo_st tools_line)",
      THEN conjunct2, THEN conjunct2, THEN conjunct2, THEN conjunct2, THEN mp, OF eqt]
      outt
    by auto
  then have e: "lastOcrResult (snd (on_line demo_rt demo_st tools_line)) = None
     \<and> lastImagePath (snd (on_line demo_rt demo_st tools_line)) = Some (JStr ''/img/missing.png'')"
    by (simp add: demo_st_def)
  show ?thesis
    using a b c d e demo_parse_call demo_parse_tools by blast
qed

section \<open>The content-addressed file name\<close>

lemma step256_length: "length (fst s) = 8 \<Longrightarrow> length (fst (step256 s k)) = 8"
  by (cases "(s, k)" rule: step256.cases) (auto simp: round_out_def)

lemma foldl_step256_length: "length (fst s) = 8 \<Longrightarrow> length (fst (foldl step256 s ks)) = 8"
  by (induction ks arbitrary: s) (simp_all add: step256_length)

lemma compress_length: "length hs = 8 \<Longrightarrow> length (compress hs block) = 8"
  by (simp add: compress_def foldl_step256_length)

lemma foldl_compress_length: "length hs = 8 \<Longrightarrow> length (foldl compress hs blocks) = 8"
  by (induction blocks arbitrary: hs) (simp_all add: compress_length)

lemma sha256_words_length: "length (sha256_words text) = 8"
  by (simp add: sha256_words_def foldl_compress_length H0_def)

lemma hex32_length: "length (hex32 w) = 8"
  by (simp add: hex32_def)

lemma length_concat_hex: "length (concat (map hex32 ws)) = 8 * length ws"
  by (induction ws) (simp_all add: hex32_length)

lemma sha256_hex_length: "length (sha256_hex text) = 64"
  by (simp add: sha256_hex_def length_concat_hex sha256_words_length)

lemma hex_digit_in: "hex_digit n \<in> set ''0123456789abcdef''"
proof -
  have "n mod 16 < length ''0123456789abcdef''" by simp
  then show ?thesis unfolding hex_digit_def by (rule nth_mem)
qed

lemma hex32_set: "set (hex32 w) \<subseteq> set ''0123456789abcdef''"
  using hex_digit_in by (auto simp: hex32_def)

lemma sha256_hex_set: "set (sha256_hex text) \<subseteq> set ''0123456789abcdef''"
  using hex32_set by (fastforce simp: sha256_hex_def)

lemma short_hash_length: "length (generateShortHash text) = 8"
  by (simp add: generateShortHash_def sha256_hex_length)

lemma short_hash_hex: "set (generateShortHash text) \<subseteq> set ''0123456789abcdef''"
  using sha256_hex_set [of "text"] set_take_subset [of 8 "sha256_hex text"]
  unfolding generateShortHash_def by blast

lemma replicate_numeral: "replicate (numeral k) x = x # replicate (pred_numeral k) x"
  by (simp add: numeral_eq_Suc)

lemmas sha_eval = generateShortHash_def sha256_hex_def sha256_words_def hex32_def hex_digit_def
  pad_def be64_bytes_def be32_def replicate_numeral compress_def H0_def K256_def add32_def rotr_def
  Ch_def Maj_def Sigma0_def Sigma1_def sigma0_def sigma1_def T1_def T2_def round_out_def

lemma hash_page_11882: "generateShortHash ''Page 11882'' = ''5d1e2587''"
  by (simp add: sha_eval)

lemma hash_page_28426: "generateShortHash ''Page 28426'' = ''5d1e2587''"
  by (simp add: sha_eval)

lemma hash_abc: "generateShortHash ''abc'' = ''ba7816bf''"
  by (simp add: sha_eval)

lemma txtPath_eq_digest:
  "generateShortHash t1 = generateShortHash t2 \<Longrightarrow> txtPath_of rt p t1 = txtPath_of rt p t2"
  by (simp add: txtPath_of_def)

lemma txtPath_neq_digest:
  "inj (path_join rt (path_dirname rt p)) \<Longrightarrow> generateShortHash t1 \<noteq> generateShortHash t2 \<Longrightarrow>
   txtPath_of rt p t1 \<noteq> txtPath_of rt p t2"
  by (auto simp: txtPath_of_def Let_def dest: injD)

text \<open>
  Claim C3, as the code has it. The output path is computed from the image path and
  the extracted text alone: it is the directory of the image joined with
  \<^verbatim>\<open>{baseName}-{digest}.txt\<close>, where the digest is the first 8 of the 64 hexadecimal
  digits of the SHA-256 of the extracted text. Texts with the same digest, and so
  identical texts, get the same path; texts with different digests get different paths
  (the join being injective in the file name). A save that succeeds puts exactly the
  header lines and the text at that path, replacing what was there, and changes no
  other path, so no earlier file is deleted; a save that fails changes nothing. The
  close handler saves under the digest of the extracted part of the completion, not of
  the analysis. Two different texts may share their 8 digits, and then their path.
\<close>

theorem C3_output_path:
  "txtPath_of rt imagePath t =
     path_join rt (path_dirname rt imagePath)
       (path_basename rt imagePath (path_extname rt imagePath) @ ''-'' @ take 8 (sha256_hex t) @ ''.txt'')
   \<and> length (take 8 (sha256_hex t)) = 8
   \<and> set (take 8 (sha256_hex t)) \<subseteq> set ''0123456789abcdef''
   \<and> (take 8 (sha256_hex t1) = take 8 (sha256_hex t2) \<longrightarrow>
        txtPath_of rt imagePath t1 = txtPath_of rt imagePath t2)
   \<and> (inj (path_join rt (path_dirname rt imagePath))
       \<and> take 8 (sha256_hex t1) \<noteq> take 8 (sha256_hex t2) \<longrightarrow>
        txtPath_of rt imagePath t1 \<noteq> txtPath_of rt imagePath t2)
   \<and> (writeFileSync rt (fs st) (txtPath_of rt imagePath t) (ocr_section t) = Inr fs' \<longrightarrow>
        saveExtractedText rt st imagePath t = (Inr (txtPath_of rt imagePath t), st\<lparr>fs := fs'\<rparr>)
        \<and> (\<exists>r w. fs' (txtPath_of rt imagePath t) =
               Some (File (''OCR EXTRACTED TEXT:'' @ [CHR 10] @ ''=================='' @ [CHR 10]
                           @ t @ [CHR 10]) r w))
        \<and> (\<forall>q. q \<noteq> txtPath_of rt imagePath t \<longrightarrow> fs' q = fs st q))
   \<and> (writeFileSync rt (fs st) (txtPath_of rt imagePath t) (ocr_section t) = Inl e \<longrightarrow>
        saveExtractedText rt st imagePath t = (Inl (''Failed to save text file: '' @ e), st))
   \<and> (exit_code res = Some 0 \<and> read_completion rt (responseData res) = Inr full
       \<and> writeFileSync rt (fs st) (txtPath_of rt imagePath (fst (split_response full)))
            (ocr_section (fst (split_response full))) = Inr fs' \<longrightarrow>
        fst (on_close rt st imagePath res) =
          Resolved \<lparr>content = [fst (split_response full),
                       [CHR 10, CHR 10] @ ''Text has been saved to: ''
                       @ txtPath_of rt imagePath (fst (split_response full))],
                    isError = False\<rparr>)"
proof -
  have c1: "txtPath_of rt imagePath t =
     path_join rt (path_dirname rt imagePath)
       (path_basename rt imagePath (path_extname rt imagePath) @ ''-'' @ take 8 (sha256_hex t) @ ''.txt'')"
    by (simp add: txtPath_of_def generateShortHash_def)
  have c2: "length (take 8 (sha256_hex t)) = 8"
    using short_hash_length [of t] by (simp add: generateShortHash_def)
  have c3: "set (take 8 (sha256_hex t)) \<subseteq> set ''0123456789abcdef''"
    using short_hash_hex [of t] by (simp only: generateShortHash_def)
  have c4: "take 8 (sha256_hex t1) = take 8 (sha256_hex t2) \<longrightarrow>
        txtPath_of rt imagePath t1 = txtPath_of rt imagePath t2"
    using txtPath_eq_digest [of t1 t2] by (simp add: generateShortHash_def)
  have c5: "inj (path_join rt (path_dirname rt imagePath))
       \<and> take 8 (sha256_hex t1) \<noteq> take 8 (sha256_hex t2) \<longrightarrow>
        txtPath_of rt imagePath t1 \<noteq> txtPath_of rt imagePath t2"
    using txtPath_neq_digest [of rt imagePath t1 t2] by (simp add: generateShortHash_def)
  have c6: "writeFileSync rt (fs st) (txtPath_of rt imagePath t) (ocr_section t) = Inr fs' \<longrightarrow>
        saveExtractedText rt st imagePath t = (Inr (txtPath_of rt imagePath t), st\<lparr>fs := fs'\<rparr>)
        \<and> (\<exists>r w. fs' (txtPath_of rt imagePath t) =
               Some (File (''OCR EXTRACTED TEXT:'' @ [CHR 10] @ ''=================='' @ [CHR 10]
                           @ t @ [CHR 10]) r w))
        \<and> (\<forall>q. q \<noteq> txtPath_of rt imagePath t \<longrightarrow> fs' q = fs st q)"
  proof
    assume w: "writeFileSync rt (fs st) (txtPath_of rt imagePath t) (ocr_section t) = Inr fs'"
    from writeFileSync_Inr [OF w] save_success [OF w]
    show "saveExtractedText rt st imagePath t = (Inr (txtPath_of rt imagePath t), st\<lparr>fs := fs'\<rparr>)
        \<and> (\<exists>r w. fs' (txtPath_of rt imagePath t) =
               Some (File (''OCR EXTRACTED TEXT:'' @ [CHR 10] @ ''=================='' @ [CHR 10]
                           @ t @ [CHR 10]) r w))
        \<and> (\<forall>q. q \<noteq> txtPath_of rt imagePath t \<longrightarrow> fs' q = fs st q)"
      by (simp add: ocr_section_def)
  qed
  have c7: "writeFileSync rt (fs st) (txtPath_of rt imagePath t) (ocr_section t) = Inl e \<longrightarrow>
        saveExtractedText rt st imagePath t = (Inl (''Failed to save text file: '' @ e), st)"
    by (simp add: save_failure)
  have c8: "exit_code res = Some 0 \<and> read_completion rt (responseData res) = Inr full
       \<and> writeFileSync rt (fs st) (txtPath_of rt imagePath (fst (split_response full)))
            (ocr_section (fst (split_response full))) = Inr fs' \<longrightarrow>
        fst (on_close rt st imagePath res) =
          Resolved \<lparr>content = [fst (split_response full),
                       [CHR 10, CHR 10] @ ''Text has been saved to: ''
                       @ txtPath_of rt imagePath (fst (split_response full))],
                    isError = False\<rparr>"
    by (simp add: on_close_saved)
  show ?thesis
    by (intro conjI c1 c2 c3 c4 c5 c6 c7 c8)
qed

lemma demo_txtPath: "txtPath_of demo_rt ''/img/page.png'' t = ''/img/page-'' @ generateShortHash t @ ''.txt''"
  by (simp add: txtPath_of_def demo_rt_def demo_path_defs suffix_to_prefix)

text \<open>
  Claim C3 as stated fails where it says that differing text yields a differing path:
  the texts \<^verbatim>\<open>Page 11882\<close> and \<^verbatim>\<open>Page 28426\<close> differ, the SHA-256 of both starts with
  \<^verbatim>\<open>5d1e2587\<close>, and both are saved to the same file.
\<close>

theorem C3_digest_collision_counterexample:
  "''Page 11882'' \<noteq> ''Page 28426''
   \<and> txtPath_of demo_rt ''/img/page.png'' ''Page 11882'' = ''/img/page-5d1e2587.txt''
   \<and> txtPath_of demo_rt ''/img/page.png'' ''Page 28426'' = ''/img/page-5d1e2587.txt''"
  by (simp add: demo_txtPath hash_page_11882 hash_page_28426)

lemma demo_join_inj: "inj (path_join demo_rt (path_dirname demo_rt ''/img/page.png''))"
  by (simp add: demo_rt_def demo_path_defs inj_def)

theorem C3_output_path_witness:
  "take 8 (sha256_hex ''Page 11882'') = take 8 (sha256_hex ''Page 28426'')
   \<and> txtPath_of demo_rt ''/img/page.png'' ''Page 11882'' = txtPath_of demo_rt ''/img/page.png'' ''Page 28426''
   \<and> inj (path_join demo_rt (path_dirname demo_rt ''/img/page.png''))
   \<and> take 8 (sha256_hex ''abc'') \<noteq> take 8 (sha256_hex ''Page 11882'')
   \<and> txtPath_of demo_rt ''/img/page.png'' ''abc'' \<noteq> txtPath_of demo_rt ''/img/page.png'' ''Page 11882''
   \<and> txtPath_of demo_rt ''/img/page.png'' ''abc'' = ''/img/page-ba7816bf.txt''
   \<and> saveExtractedText demo_rt demo_st ''/img/page.png'' ''Page 11882'' =
       (Inr ''/img/page-5d1e2587.txt'',
        demo_st\<lparr>fs := (fs demo_st)(''/img/page-5d1e2587.txt'' \<mapsto>
           File (''OCR EXTRACTED TEXT:'' @ [CHR 10] @ ''=================='' @ [CHR 10]
                 @ ''Page 11882'' @ [CHR 10]) True True)\<rparr>)
   \<and> saveExtractedText demo_rt_readonly demo_st ''/img/page.png'' ''Page 11882'' =
       (Inl ''Failed to save text file: ENOENT'', demo_st)"
proof -
  have h1: "take 8 (sha256_hex ''Page 11882'') = ''5d1e2587''"
    using hash_page_11882 by (simp only: generateShortHash_def)
  have h2: "take 8 (sha256_hex ''Page 28426'') = ''5d1e2587''"
    using hash_page_28426 by (simp only: generateShortHash_def)
  have h3: "take 8 (sha256_hex ''abc'') = ''ba7816bf''"
    using hash_abc by (simp only: generateShortHash_def)
  have e: "take 8 (sha256_hex ''Page 11882'') = take 8 (sha256_hex ''Page 28426'')"
    by (simp only: h1 h2)
  have a: "txtPath_of demo_rt ''/img/page.png'' ''Page 11882'' = txtPath_of demo_rt ''/img/page.png'' ''Page 28426''"
    using C3_output_path [where rt = demo_rt and imagePath = "''/img/page.png''"
        and ?t1.0 = "''Page 11882''" and ?t2.0 = "''Page 28426''",
        THEN conjunct2, THEN conjunct2, THEN conjunct2, THEN conjunct1, THEN mp, OF e] .
  have n: "inj (path_join demo_rt (path_dirname demo_rt ''/img/page.png''))
       \<and> take 8 (sha256_hex ''abc'') \<noteq> take 8 (sha256_hex ''Page 11882'')"
    by (simp add: demo_join_inj) (simp add: h1 h3)
  have b: "txtPath_of demo_rt ''/img/page.png'' ''abc'' \<noteq> txtPath_of demo_rt ''/img/page.png'' ''Page 11882''"
    using C3_output_path [where rt = demo_rt and imagePath = "''/img/page.png''"
        and ?t1.0 = "''abc''" and ?t2.0 = "''Page 11882''",
        THEN conjunct2, THEN conjunct2, THEN conjunct2, THEN conjunct2, THEN conjunct1, THEN mp, OF n] .
  have c: "txtPath_of demo_rt ''/img/page.png'' ''abc'' = ''/img/page-ba7816bf.txt''"
    using C3_output_path [where rt = demo_rt and imagePath = "''/img/page.png''" and t = "''abc''",
        THEN conjunct1]
    by (simp add: h3) (simp add: demo_rt_def demo_path_defs suffix_to_prefix)
  have p: "txtPath_of demo_rt ''/img/page.png'' ''Page 11882'' = ''/img/page-5d1e2587.txt''"
          "txtPath_of demo_rt_readonly ''/img/page.png'' ''Page 11882'' = ''/img/page-5d1e2587.txt''"
    by (simp_all add: txtPath_of_def hash_page_11882 demo_rt_defs demo_path_defs suffix_to_prefix)
  have w: "writeFileSync demo_rt (fs demo_st) (txtPath_of demo_rt ''/img/page.png'' ''Page 11882'')
             (ocr_section ''Page 11882'') =
           Inr ((fs demo_st)(''/img/page-5d1e2587.txt'' \<mapsto> File (ocr_section ''Page 11882'') True True))"
    unfolding p by (simp add: writeFileSync_def demo_st_def demo_fs_def demo_rt_def)
  have d: "saveExtractedText demo_rt demo_st ''/img/page.png'' ''Page 11882'' =
       (Inr ''/img/page-5d1e2587.txt'',
        demo_st\<lparr>fs := (fs demo_st)(''/img/page-5d1e2587.txt'' \<mapsto>
           File (''OCR EXTRACTED TEXT:'' @ [CHR 10] @ ''=================='' @ [CHR 10]
                 @ ''Page 11882'' @ [CHR 10]) True True)\<rparr>)"
    using C3_output_path [where rt = demo_rt and imagePath = "''/img/page.png''" and t = "''Page 11882''"
        and st = demo_st,
        THEN conjunct2, THEN conjunct2, THEN conjunct2, THEN conjunct2, THEN conjunct2,
        THEN conjunct1, THEN mp, OF w, THEN conjunct1]
    by (simp add: p ocr_section_def)
  have wf: "writeFileSync demo_rt_readonly (fs demo_st) (txtPath_of demo_rt_readonly ''/img/page.png'' ''Page 11882'')
             (ocr_section ''Page 11882'') = Inl ''ENOENT''"
    unfolding p by (simp add: writeFileSync_def demo_st_def demo_fs_def demo_rt_defs)
  have f: "saveExtractedText demo_rt_readonly demo_st ''/img/page.png'' ''Page 11882'' =
       (Inl ''Failed to save text file: ENOENT'', demo_st)"
    using C3_output_path [where rt = demo_rt_readonly and imagePath = "''/img/page.png''"
        and t = "''Page 11882''" and st = demo_st,
        THEN conjunct2, THEN conjunct2, THEN conjunct2, THEN conjunct2, THEN conjunct2,
        THEN conjunct2, THEN conjunct1, THEN mp, OF wf]
    by simp
  show ?thesis
    by (intro conjI e a b c d f) (simp_all add: n)
qed

end
